theory Spec2Isabelle
  imports Complex_Main
begin

section \<open>The staking script \<^verbatim>\<open>scripts/staking.py\<close>\<close>

text \<open>
  The script is a straight-line decision procedure over three kinds of external
  collaborators: the chain (read through the helpers of \<^verbatim>\<open>utils\<close>, written to by
  \<^verbatim>\<open>send_tx_and_wait_for_receipt\<close>), the operator (\<^verbatim>\<open>input\<close>, \<^verbatim>\<open>print\<close>) and the
  process (\<^verbatim>\<open>sys.exit\<close>, exceptions, the environment file). The embedding threads an
  explicit world through every call; every call returns, besides its outcome and the
  new world, the list of the effects it had, in order.
\<close>

subsection \<open>Data\<close>

type_synonym address = string

text \<open>An unsigned transaction, as built by \<^verbatim>\<open>get_stake_txs\<close> and \<^verbatim>\<open>get_unstake_txs\<close>.\<close>

datatype tx = Tx nat

text \<open>
  What the reader functions of \<^verbatim>\<open>utils\<close> return for one staking contract at one
  instant. \<^verbatim>\<open>utils\<close> is not part of the sources at hand, so the answers are data
  of the world: one field per reader function the script calls.
\<close>

record contract =
  service_ids :: "int list"                   \<comment> \<open>\<^verbatim>\<open>get_service_ids\<close>\<close>
  staked :: "int \<Rightarrow> bool"                     \<comment> \<open>\<^verbatim>\<open>is_service_staked\<close>\<close>
  evicted :: "int \<Rightarrow> bool"                    \<comment> \<open>\<^verbatim>\<open>is_service_evicted\<close>\<close>
  ts_start :: "int \<Rightarrow> int"                    \<comment> \<open>\<^verbatim>\<open>get_service_info(...)[3]\<close>\<close>
  min_staking_duration :: int                 \<comment> \<open>\<^verbatim>\<open>get_min_staking_duration\<close>\<close>
  available_rewards :: int                    \<comment> \<open>\<^verbatim>\<open>get_available_rewards\<close>\<close>
  available_staking_slots :: int              \<comment> \<open>\<^verbatim>\<open>get_available_staking_slots\<close>\<close>
  next_checkpoint_ts :: int                   \<comment> \<open>\<^verbatim>\<open>get_next_checkpoint_ts\<close>\<close>
  liveness_period :: int                      \<comment> \<open>\<^verbatim>\<open>get_liveness_period\<close>\<close>
  stake_txs :: "int \<Rightarrow> address \<Rightarrow> tx list"    \<comment> \<open>\<^verbatim>\<open>get_stake_txs\<close>, by service id and registry\<close>
  unstake_txs :: "int \<Rightarrow> tx list"             \<comment> \<open>\<^verbatim>\<open>get_unstake_txs\<close>, by service id\<close>

text \<open>The chain queries, one per reader function.\<close>

datatype query =
    Service_ids | Is_staked | Is_evicted | Service_info | Min_staking_duration
  | Available_rewards | Available_staking_slots | Next_checkpoint_ts | Liveness_period

text \<open>
  Exceptions of class \<^verbatim>\<open>Exception\<close>: \<^verbatim>\<open>input\<close> at end of input, a timestamp that
  \<^verbatim>\<open>datetime.utcfromtimestamp\<close> cannot represent, and whatever an external call raises.
\<close>

datatype exn = EOFError | Timestamp_out_of_range | External_error string

text \<open>
  The texts the script prints, one constructor per \<^verbatim>\<open>print\<close> call (by its wording),
  carrying the values interpolated into it. Formatting of numbers and durations is
  left out.
\<close>

datatype message =
    Starting string
  | Unstaking_from_old_programs
  | Checking_if_staked string
  | Not_staked int string
  | Cannot_be_unstaked_yet int string
  | Staked_must_unstake_first int string
  | Blank
  | Terminating_script
  | Unstaking int string
  | Successfully_unstaked int string
  | Staked_for string
  | Cannot_unstake_until string
  | Not_staked_checking_rewards int string
  | No_rewards_cannot_be_staked int
  | Rewards_available_staking int int
  | Staked_successfully int string
  | All_slots_taken address int
  | Script_will_finish
  | Evicted_warning int string
  | Checkpoint_not_available int int int
  | Evicted_unstaking int string
  | Already_staked_checking_rewards int string
  | No_rewards_unstaking int string
  | Rewards_available_remain_staked int
  | Error_occurred exn
  | Please_confirm_and_retry

text \<open>The two prompts passed to \<^verbatim>\<open>input\<close>.\<close>

datatype prompt = Press_enter | Continue_unstaking int string

text \<open>Everything the script does to the outside, in the order it does it.\<close>

datatype event =
    Print message
  | Input prompt
  | Read_clock
  | Load_key string
  | Read query address
  | Build_stake int address address
  | Build_unstake int address
  | Send tx
  | Traceback exn
  | Unset_key string string

text \<open>
  The world. The chain, the clock and the failures of external calls are not under
  the script's control: they are given as functions of the number of external calls
  made so far (\<open>tick\<close>), so that two reads of one field may see different values and
  a transaction may change what later reads return. \<open>stdin\<close> holds the lines the
  operator has still to type, \<open>env_file\<close> the keys of \<^verbatim>\<open>../.trader_runner/.env\<close>.
  \<^verbatim>\<open>time.time()\<close> is a float; the clock is read as the real number it stands for.
\<close>

record world =
  chain_at :: "nat \<Rightarrow> address \<Rightarrow> contract"
  time_at :: "nat \<Rightarrow> real"
  fault :: "nat \<Rightarrow> exn option"
  tick :: nat
  stdin :: "string list"
  env_file :: "string \<Rightarrow> string option"

subsection \<open>Control: return, \<^verbatim>\<open>sys.exit\<close>, exceptions\<close>

text \<open>
  A call returns a value, leaves through \<^verbatim>\<open>sys.exit(code)\<close> (\<^verbatim>\<open>SystemExit\<close>, which
  \<^verbatim>\<open>except Exception\<close> does not catch) or raises an \<^verbatim>\<open>Exception\<close>.
\<close>

datatype 'a outcome = Return 'a | Exit int | Raise exn

type_synonym 'a prog = "world \<Rightarrow> 'a outcome \<times> event list \<times> world"

definition return :: "'a \<Rightarrow> 'a prog" where
  "return a w = (Return a, [], w)"

definition sys_exit :: "int \<Rightarrow> 'a prog" where
  "sys_exit code w = (Exit code, [], w)"

definition raise :: "exn \<Rightarrow> 'a prog" where
  "raise e w = (Raise e, [], w)"

text \<open>
  Sequencing: the second call runs only when the first returns; a \<^verbatim>\<open>sys.exit\<close> or
  an exception of the first ends both.
\<close>

definition bind_prog :: "'a prog \<Rightarrow> ('a \<Rightarrow> 'b prog) \<Rightarrow> 'b prog" where
  "bind_prog m f w =
     (case m w of
        (Return a, es, w') \<Rightarrow> (case f a w' of (r, es', w'') \<Rightarrow> (r, es @ es', w''))
      | (Exit code, es, w') \<Rightarrow> (Exit code, es, w')
      | (Raise e, es, w') \<Rightarrow> (Raise e, es, w'))"

definition seq_prog :: "'a prog \<Rightarrow> 'b prog \<Rightarrow> 'b prog" where
  "seq_prog m n = bind_prog m (\<lambda>_. n)"

definition outcome_of :: "'a prog \<Rightarrow> world \<Rightarrow> 'a outcome" where
  "outcome_of m w = fst (m w)"

definition events_of :: "'a prog \<Rightarrow> world \<Rightarrow> event list" where
  "events_of m w = fst (snd (m w))"

definition world_after :: "'a prog \<Rightarrow> world \<Rightarrow> world" where
  "world_after m w = snd (snd (m w))"

subsection \<open>External calls\<close>

definition print :: "message \<Rightarrow> unit prog" where
  "print m w = (Return (), [Print m], w)"

text \<open>
  \<^verbatim>\<open>input(prompt)\<close>: the next line of the operator, \<^verbatim>\<open>EOFError\<close> when there is none.
\<close>

definition input :: "prompt \<Rightarrow> string prog" where
  "input p w =
     (case stdin w of
        [] \<Rightarrow> (Raise EOFError, [Input p], w)
      | l # ls \<Rightarrow> (Return l, [Input p], w\<lparr>stdin := ls\<rparr>))"

text \<open>
  An external call has its event, takes one tick, and either fails with the
  exception the world holds for that tick or answers from the world at that tick.
\<close>

definition external :: "event \<Rightarrow> (world \<Rightarrow> 'a) \<Rightarrow> 'a prog" where
  "external e answer w =
     (case fault w (tick w) of
        Some x \<Rightarrow> (Raise x, [e], w\<lparr>tick := Suc (tick w)\<rparr>)
      | None \<Rightarrow> (Return (answer w), [e], w\<lparr>tick := Suc (tick w)\<rparr>))"

definition chain_read :: "query \<Rightarrow> address \<Rightarrow> (contract \<Rightarrow> 'a) \<Rightarrow> 'a prog" where
  "chain_read q a field = external (Read q a) (\<lambda>w. field (chain_at w (tick w) a))"

text \<open>\<^verbatim>\<open>time.time()\<close>: takes a tick, never fails.\<close>

definition time_time :: "real prog" where
  "time_time w = (Return (time_at w (tick w)), [Read_clock], w\<lparr>tick := Suc (tick w)\<rparr>)"

definition get_service_ids :: "address \<Rightarrow> int list prog" where
  "get_service_ids a = chain_read Service_ids a service_ids"

definition is_service_staked :: "int \<Rightarrow> address \<Rightarrow> bool prog" where
  "is_service_staked service_id a = chain_read Is_staked a (\<lambda>c. staked c service_id)"

definition is_service_evicted :: "int \<Rightarrow> address \<Rightarrow> bool prog" where
  "is_service_evicted service_id a = chain_read Is_evicted a (\<lambda>c. evicted c service_id)"

definition get_service_info_ts_start :: "int \<Rightarrow> address \<Rightarrow> int prog" where
  "get_service_info_ts_start service_id a =
     chain_read Service_info a (\<lambda>c. ts_start c service_id)"

definition get_min_staking_duration :: "address \<Rightarrow> int prog" where
  "get_min_staking_duration a = chain_read Min_staking_duration a min_staking_duration"

definition get_available_rewards :: "address \<Rightarrow> int prog" where
  "get_available_rewards a = chain_read Available_rewards a available_rewards"

definition get_available_staking_slots :: "address \<Rightarrow> int prog" where
  "get_available_staking_slots a =
     chain_read Available_staking_slots a available_staking_slots"

definition get_next_checkpoint_ts :: "address \<Rightarrow> int prog" where
  "get_next_checkpoint_ts a = chain_read Next_checkpoint_ts a next_checkpoint_ts"

definition get_liveness_period :: "address \<Rightarrow> int prog" where
  "get_liveness_period a = chain_read Liveness_period a liveness_period"

definition get_stake_txs :: "int \<Rightarrow> address \<Rightarrow> address \<Rightarrow> tx list prog" where
  "get_stake_txs service_id service_registry_address a =
     external (Build_stake service_id service_registry_address a)
       (\<lambda>w. stake_txs (chain_at w (tick w) a) service_id service_registry_address)"

definition get_unstake_txs :: "int \<Rightarrow> address \<Rightarrow> tx list prog" where
  "get_unstake_txs service_id a =
     external (Build_unstake service_id a)
       (\<lambda>w. unstake_txs (chain_at w (tick w) a) service_id)"

definition send_tx_and_wait_for_receipt :: "tx \<Rightarrow> unit prog" where
  "send_tx_and_wait_for_receipt t = external (Send t) (\<lambda>_. ())"

text \<open>The loop \<^verbatim>\<open>for tx in txs: send_tx_and_wait_for_receipt(ledger_api, owner_crypto, tx)\<close>.\<close>

fun send_all :: "tx list \<Rightarrow> unit prog" where
  "send_all [] = return ()"
| "send_all (t # ts) = seq_prog (send_tx_and_wait_for_receipt t) (send_all ts)"

subsection \<open>Strings\<close>

text \<open>
  \<^verbatim>\<open>str.lower\<close> on the letters \<^verbatim>\<open>A\<close> to \<^verbatim>\<open>Z\<close>. A string is its bytes; no
  character outside ASCII lower-cases to \<^verbatim>\<open>y\<close>, \<^verbatim>\<open>e\<close> or \<^verbatim>\<open>s\<close>, so the membership
  tests below do not depend on what \<^verbatim>\<open>lower\<close> does there.
\<close>

definition lower_char :: "char \<Rightarrow> char" where
  "lower_char c =
     (case map_of (zip ''ABCDEFGHIJKLMNOPQRSTUVWXYZ'' ''abcdefghijklmnopqrstuvwxyz'') c of
        Some l \<Rightarrow> l
      | None \<Rightarrow> c)"

definition lower :: "string \<Rightarrow> string" where
  "lower s = map lower_char s"

definition startswith :: "string \<Rightarrow> string \<Rightarrow> bool" where
  "startswith s p = (take (length p) s = p)"

subsection \<open>The legacy migration sweep\<close>

text \<open>
  The dictionary \<^verbatim>\<open>OLD_STAKING_PROGRAMS\<close>, in the order of its literal (the order
  \<^verbatim>\<open>.items()\<close> iterates in).
\<close>

definition OLD_STAKING_PROGRAMS :: "(string \<times> address) list" where
  "OLD_STAKING_PROGRAMS =
     [(''Everest'', ''0x5add592ce0a1B5DceCebB5Dcac086Cd9F9e3eA5C''),
      (''Alpine'', ''0x2Ef503950Be67a98746F484DA0bBAdA339DF3326''),
      (''CoastalTest'', ''0x97371B1C0cDA1D04dFc43DFb50a04645b7Bc9BEe'')]"

text \<open>
  \<^verbatim>\<open>_check_unstaking_availability\<close>: the duration lock. The handles \<^verbatim>\<open>ledger_api\<close>
  and \<^verbatim>\<open>owner_crypto\<close> stand for the world and are not passed around.
\<close>

definition check_unstaking_availability :: "int \<Rightarrow> address \<Rightarrow> string \<Rightarrow> bool prog" where
  "check_unstaking_availability service_id staking_contract_address staking_program =
     bind_prog time_time (\<lambda>now.
     bind_prog (get_service_info_ts_start service_id staking_contract_address) (\<lambda>ts_start.
     bind_prog (get_min_staking_duration staking_contract_address) (\<lambda>minimum_staking_duration.
     bind_prog (get_available_rewards staking_contract_address) (\<lambda>available_rewards.
       if now - real_of_int ts_start < real_of_int minimum_staking_duration
          \<and> available_rewards > 0
       then seq_prog (print (Staked_for staking_program))
           (seq_prog (print (Cannot_unstake_until staking_program))
           (return False))
       else return True))))"

text \<open>
  The tail of \<^verbatim>\<open>_unstake_old_program\<close>, from the message that the service is staked
  on the old program (source lines 102 to 118): prompt, refusal, unstake batch.
\<close>

definition confirm_and_unstake_old :: "int \<Rightarrow> address \<Rightarrow> string \<Rightarrow> unit prog" where
  "confirm_and_unstake_old service_id staking_contract_address staking_program =
     seq_prog (print (Staked_must_unstake_first service_id staking_program))
    (bind_prog (input (Continue_unstaking service_id staking_program)) (\<lambda>line.
     let user_input = lower line in
     seq_prog (print Blank)
    (if user_input \<notin> set [''yes'', ''y'']
     then seq_prog (print Terminating_script) (sys_exit 1)
     else
     seq_prog (print (Unstaking service_id staking_program))
    (bind_prog (get_unstake_txs service_id staking_contract_address) (\<lambda>unstake_txs.
     seq_prog (send_all unstake_txs)
    (print (Successfully_unstaked service_id staking_program)))))))"

text \<open>\<^verbatim>\<open>_unstake_old_program\<close>.\<close>

definition unstake_old_program :: "int \<Rightarrow> address \<Rightarrow> string \<Rightarrow> unit prog" where
  "unstake_old_program service_id staking_contract_address staking_program =
     seq_prog (print (Checking_if_staked staking_program))
    (if startswith staking_program ''Everest''
     then
       bind_prog (get_service_ids staking_contract_address) (\<lambda>ids.
         if service_id \<notin> set ids
         then print (Not_staked service_id staking_program)
         else confirm_and_unstake_old service_id staking_contract_address staking_program)
     else
       bind_prog (is_service_staked service_id staking_contract_address) (\<lambda>is_staked.
         if \<not> is_staked
         then print (Not_staked service_id staking_program)
         else
           bind_prog (check_unstaking_availability service_id staking_contract_address
                        staking_program) (\<lambda>can_unstake.
             if \<not> can_unstake
             then seq_prog (print (Cannot_be_unstaked_yet service_id staking_program))
                 (seq_prog (input Press_enter)
                 (sys_exit 0))
             else confirm_and_unstake_old service_id staking_contract_address
                    staking_program)))"

text \<open>The loop of \<^verbatim>\<open>_unstake_all_old_programs\<close> over the items of the table.\<close>

fun unstake_each :: "int \<Rightarrow> (string \<times> address) list \<Rightarrow> unit prog" where
  "unstake_each service_id [] = return ()"
| "unstake_each service_id ((program, address) # rest) =
     seq_prog (unstake_old_program service_id address program)
              (unstake_each service_id rest)"

definition unstake_all_old_programs :: "int \<Rightarrow> unit prog" where
  "unstake_all_old_programs service_id =
     seq_prog (print Unstaking_from_old_programs)
              (unstake_each service_id OLD_STAKING_PROGRAMS)"

subsection \<open>The stake attempt\<close>

text \<open>\<^verbatim>\<open>_try_stake_service\<close>. Every path ends in \<^verbatim>\<open>sys.exit\<close>.\<close>

definition try_stake_service :: "int \<Rightarrow> address \<Rightarrow> address \<Rightarrow> string \<Rightarrow> unit prog" where
  "try_stake_service service_id service_registry_address staking_contract_address
       staking_program =
     bind_prog (get_available_staking_slots staking_contract_address) (\<lambda>slots.
     if slots > 0
     then
       seq_prog (print (Not_staked_checking_rewards service_id staking_program))
      (bind_prog (get_available_rewards staking_contract_address) (\<lambda>available_rewards.
       if available_rewards = 0
       then seq_prog (print (No_rewards_cannot_be_staked service_id)) (sys_exit 0)
       else
       seq_prog (print (Rewards_available_staking available_rewards service_id))
      (bind_prog (get_stake_txs service_id service_registry_address
                    staking_contract_address) (\<lambda>stake_txs.
       seq_prog (send_all stake_txs)
      (seq_prog (print (Staked_successfully service_id staking_program))
      (sys_exit 0))))))
     else
       seq_prog (print (All_slots_taken staking_contract_address service_id))
      (seq_prog (print Script_will_finish)
      (sys_exit 1)))"

subsection \<open>The command line\<close>

text \<open>
  The command line after the name of the script: six words, one for each positional
  argument in the order the parser declares them, followed or not by \<^verbatim>\<open>--password\<close>
  and its value.
\<close>

record cli =
  cli_service_id :: string
  cli_service_registry_address :: string
  cli_staking_contract_address :: string
  cli_owner_private_key_path :: string
  cli_rpc :: string
  cli_unstake :: string
  cli_password :: "string option"

text \<open>The namespace \<^verbatim>\<open>args\<close> after the conversions named by \<^verbatim>\<open>type=\<close>.\<close>

record args =
  service_id :: int
  service_registry_address :: address
  staking_contract_address :: address
  owner_private_key_path :: string
  rpc :: string
  unstake :: bool
  password :: "string option"

text \<open>\<^verbatim>\<open>bool(s)\<close> on a string: true unless the string is empty.\<close>

definition py_bool :: "string \<Rightarrow> bool" where
  "py_bool s = (s \<noteq> [])"

text \<open>
  What the parser takes from the Python library and this development leaves open:
  the builtin \<^verbatim>\<open>int\<close> (\<open>None\<close> where it raises \<^verbatim>\<open>ValueError\<close>); the test of
  \<^verbatim>\<open>argparse\<close> for a word that looks like a negative number (a minus sign before
  decimal digits, with or without a dot among them; Python counts every Unicode
  decimal digit); whether a command line that \<^verbatim>\<open>argparse\<close> refuses meets \<^verbatim>\<open>-h\<close> or
  \<^verbatim>\<open>--help\<close> before the error, and so ends with the help text and status 0 instead of
  a usage error and status 2; and the result of a command line that holds both the
  separator \<^verbatim>\<open>--\<close> among its six words and a password, where the words after the
  separator are shifted into the positional arguments.
\<close>

record library =
  py_int :: "string \<Rightarrow> int option"
  negative_number :: "string \<Rightarrow> bool"
  prints_help :: "cli \<Rightarrow> bool"
  after_separator :: "cli \<Rightarrow> args outcome"

text \<open>
  The option strings of the parser: \<^verbatim>\<open>-h\<close> and \<^verbatim>\<open>--help\<close>, which
  \<^verbatim>\<open>ArgumentParser\<close> adds by itself, and \<^verbatim>\<open>--password\<close>.
\<close>

definition option_strings :: "string list" where
  "option_strings = [''-h'', ''--help'', ''--password'']"

text \<open>
  The options a word of two characters or more that begins with \<^verbatim>\<open>-\<close> may stand for
  (\<^verbatim>\<open>_get_option_tuples\<close>): a word that begins with \<^verbatim>\<open>--\<close> abbreviates the options
  that begin with its part before the first \<^verbatim>\<open>=\<close>; any other word stands for the
  option that is its first two characters and abbreviates the options that begin
  with the whole word.
\<close>

definition option_tuples :: "string \<Rightarrow> string list" where
  "option_tuples t =
     (if startswith t ''--''
      then filter (\<lambda>opt. startswith opt (takeWhile (\<lambda>c. c \<noteq> CHR ''='') t)) option_strings
      else filter (\<lambda>opt. opt = take 2 t \<or> startswith opt t) option_strings)"

text \<open>
  Whether \<^verbatim>\<open>argparse\<close> takes a word for a positional argument (\<^verbatim>\<open>_parse_optional\<close>
  returns \<^verbatim>\<open>None\<close>), in the order of its tests. The last case is a word that
  begins with \<^verbatim>\<open>-\<close> and matches no option: it is reported as an unrecognised
  argument. The separator \<^verbatim>\<open>--\<close> is not a positional argument either.
\<close>

definition is_positional :: "(string \<Rightarrow> bool) \<Rightarrow> string \<Rightarrow> bool" where
  "is_positional negative t =
     (if t = [] then True
      else if hd t \<noteq> CHR ''-'' then True
      else if t \<in> set option_strings then False
      else if length t = 1 then True
      else if CHR ''='' \<in> set t \<and> takeWhile (\<lambda>c. c \<noteq> CHR ''='') t \<in> set option_strings
        then False
      else if option_tuples t \<noteq> [] then False
      else if negative t then True
      else if CHR '' '' \<in> set t then True
      else False)"

text \<open>The six words, in the order of the command line.\<close>

definition positional_words :: "cli \<Rightarrow> string list" where
  "positional_words c =
     [cli_service_id c, cli_service_registry_address c, cli_staking_contract_address c,
      cli_owner_private_key_path c, cli_rpc c, cli_unstake c]"

text \<open>
  \<^verbatim>\<open>parser.parse_args()\<close>. When all six words are taken for positional arguments
  they are bound in order and converted: \<^verbatim>\<open>type=int\<close> may fail, on which
  \<^verbatim>\<open>argparse\<close> reports the error and exits with status 2, \<^verbatim>\<open>type=str\<close> is the
  identity, \<^verbatim>\<open>type=bool\<close> is \<^verbatim>\<open>bool\<close>; a value of \<^verbatim>\<open>--password\<close> that is not
  taken for an argument is a usage error. The \<^verbatim>\<open>default=False\<close> of \<^verbatim>\<open>unstake\<close> is
  never used, a positional argument without \<^verbatim>\<open>nargs\<close> being required. When one of
  the six words is taken for an option, or is the separator, fewer than six positional
  arguments remain and \<^verbatim>\<open>argparse\<close> ends the run, with the help text or with a usage
  error, unless the words after a separator fill the gap.
\<close>

definition parse_args :: "library \<Rightarrow> cli \<Rightarrow> args prog" where
  "parse_args lib c =
     (if list_all (is_positional (negative_number lib)) (positional_words c)
      then
        (case py_int lib (cli_service_id c) of
           None \<Rightarrow> sys_exit 2
         | Some n \<Rightarrow>
             if (case cli_password c of
                   None \<Rightarrow> True
                 | Some p \<Rightarrow> is_positional (negative_number lib) p)
             then return \<lparr>service_id = n,
                          service_registry_address = cli_service_registry_address c,
                          staking_contract_address = cli_staking_contract_address c,
                          owner_private_key_path = cli_owner_private_key_path c,
                          rpc = cli_rpc c,
                          unstake = py_bool (cli_unstake c),
                          password = cli_password c\<rparr>
             else sys_exit 2)
      else if ''--'' \<in> set (positional_words c) \<and> cli_password c \<noteq> None
      then (\<lambda>w. (after_separator lib c, [], w))
      else sys_exit (if prints_help lib c then 0 else 2))"

text \<open>
  \<^verbatim>\<open>EthereumCrypto(private_key_path=..., password=...)\<close> loads the key file, and may
  fail. \<^verbatim>\<open>EthereumApi(address=args.rpc)\<close> only builds the handle of the chain: it is
  not a step of the model.
\<close>

definition ethereum_crypto :: "string \<Rightarrow> string option \<Rightarrow> unit prog" where
  "ethereum_crypto private_key_path pw = external (Load_key private_key_path) (\<lambda>_. ())"

subsection \<open>The decision engine\<close>

text \<open>
  \<^verbatim>\<open>datetime.utcfromtimestamp(t)\<close> succeeds for the years 1 to 9999 and raises
  otherwise; the formatted text stands for its timestamp.
\<close>

definition datetime_range :: "int \<Rightarrow> bool" where
  "datetime_range t \<longleftrightarrow> - 62135596800 \<le> t \<and> t \<le> 253402300799"

definition utcfromtimestamp :: "int \<Rightarrow> int prog" where
  "utcfromtimestamp t =
     (if datetime_range t then return t else raise Timestamp_out_of_range)"

text \<open>
  The block \<^verbatim>\<open>if args.unstake:\<close> of \<^verbatim>\<open>main\<close> (source lines 250 to 313). Every
  path through it ends in \<^verbatim>\<open>sys.exit\<close> or in an exception.
\<close>

definition unstake_requested :: "string \<Rightarrow> args \<Rightarrow> int \<Rightarrow> int \<Rightarrow> int \<Rightarrow> real \<Rightarrow> unit prog" where
  "unstake_requested staking_program a next_ts liveness last_ts now =
     bind_prog (is_service_staked (service_id a) (staking_contract_address a)) (\<lambda>is_staked.
     if \<not> is_staked
     then seq_prog (print (Not_staked (service_id a) staking_program)) (sys_exit 0)
     else
     bind_prog (is_service_evicted (service_id a) (staking_contract_address a)) (\<lambda>is_evicted.
     seq_prog
       (if is_evicted
        then seq_prog (print (Evicted_warning (service_id a) staking_program))
            (seq_prog (input Press_enter) (return ()))
        else return ())
    (bind_prog (check_unstaking_availability (service_id a) (staking_contract_address a)
                  staking_program) (\<lambda>can_unstake.
     if \<not> can_unstake
     then seq_prog (print Terminating_script) (sys_exit 1)
     else
     seq_prog
       (if now < real_of_int next_ts
        then
          bind_prog (utcfromtimestamp last_ts) (\<lambda>formatted_last_ts.
          bind_prog (utcfromtimestamp next_ts) (\<lambda>formatted_next_ts.
          seq_prog (print (Checkpoint_not_available liveness formatted_last_ts
                             formatted_next_ts))
         (bind_prog (input (Continue_unstaking (service_id a) staking_program)) (\<lambda>line.
          let user_input = lower line in
          seq_prog (print Blank)
         (if user_input \<notin> set [''yes'', ''y'']
          then seq_prog (print Terminating_script) (sys_exit 1)
          else return ())))))
        else return ())
    (seq_prog (print (Unstaking (service_id a) staking_program))
    (bind_prog (get_unstake_txs (service_id a) (staking_contract_address a)) (\<lambda>unstake_txs.
     seq_prog (send_all unstake_txs)
    (seq_prog (print (Successfully_unstaked (service_id a) staking_program))
    (sys_exit 0)))))))))"

text \<open>
  The rest of \<^verbatim>\<open>main\<close>, reached when no unstake was requested (source lines 315
  to 390).
\<close>

definition stake_or_remain :: "string \<Rightarrow> args \<Rightarrow> unit prog" where
  "stake_or_remain staking_program a =
     bind_prog (is_service_staked (service_id a) (staking_contract_address a)) (\<lambda>is_staked.
     if is_staked
     then
       bind_prog (is_service_evicted (service_id a) (staking_contract_address a)) (\<lambda>is_evicted.
       if is_evicted
       then
         seq_prog (print (Evicted_unstaking (service_id a) staking_program))
        (bind_prog (check_unstaking_availability (service_id a) (staking_contract_address a)
                      staking_program) (\<lambda>can_unstake.
         if \<not> can_unstake
         then seq_prog (print Terminating_script) (sys_exit 1)
         else
         bind_prog (get_unstake_txs (service_id a) (staking_contract_address a)) (\<lambda>unstake_txs.
         seq_prog (send_all unstake_txs)
        (seq_prog (print (Successfully_unstaked (service_id a) staking_program))
        (seq_prog (try_stake_service (service_id a) (service_registry_address a)
                     (staking_contract_address a) staking_program)
        (sys_exit 0))))))
       else
         seq_prog (print (Already_staked_checking_rewards (service_id a) staking_program))
        (bind_prog (get_available_rewards (staking_contract_address a)) (\<lambda>available_rewards.
         if available_rewards = 0
         then
           seq_prog (print (No_rewards_unstaking (service_id a) staking_program))
          (bind_prog (get_unstake_txs (service_id a) (staking_contract_address a)) (\<lambda>unstake_txs.
           seq_prog (send_all unstake_txs)
          (seq_prog (print (Successfully_unstaked (service_id a) staking_program))
          (sys_exit 0))))
         else
           seq_prog (print (Rewards_available_remain_staked (service_id a)))
          (sys_exit 0))))
     else
       try_stake_service (service_id a) (service_registry_address a)
         (staking_contract_address a) staking_program)"

text \<open>
  The decision engine: \<^verbatim>\<open>main\<close> from \<^verbatim>\<open># Collect information\<close> to the end of the
  \<^verbatim>\<open>try\<close> block (source lines 240 to 390).
\<close>

definition main_engine :: "string \<Rightarrow> args \<Rightarrow> unit prog" where
  "main_engine staking_program a =
     bind_prog (get_next_checkpoint_ts (staking_contract_address a)) (\<lambda>next_ts.
     bind_prog (get_liveness_period (staking_contract_address a)) (\<lambda>liveness.
     let last_ts = next_ts - liveness in
     bind_prog time_time (\<lambda>now.
     bind_prog (get_available_rewards (staking_contract_address a)) (\<lambda>available_rewards.
     seq_prog
       (if unstake a
        then unstake_requested staking_program a next_ts liveness last_ts now
        else return ())
       (stake_or_remain staking_program a)))))"

subsection \<open>\<^verbatim>\<open>main\<close>\<close>

text \<open>The body of the \<^verbatim>\<open>try\<close> block.\<close>

definition main_try :: "library \<Rightarrow> cli \<Rightarrow> unit prog" where
  "main_try lib c =
     (let staking_program = ''Coastal'' in
      seq_prog (print (Starting staking_program))
     (bind_prog (parse_args lib c) (\<lambda>a.
      seq_prog (ethereum_crypto (owner_private_key_path a) (password a))
     (seq_prog (unstake_all_old_programs (service_id a))
     (main_engine staking_program a)))))"

definition traceback_print_exc :: "exn \<Rightarrow> unit prog" where
  "traceback_print_exc e w = (Return (), [Traceback e], w)"

text \<open>
  \<^verbatim>\<open>dotenv.unset_key(path, key)\<close> rewrites the file without the key. Like every call
  that leaves the script it takes a tick and fails with the exception the world holds
  for that tick (the file cannot be read or replaced), leaving the file as it was.
\<close>

definition dotenv_unset_key :: "string \<Rightarrow> string \<Rightarrow> unit prog" where
  "dotenv_unset_key path key w =
     (case fault w (tick w) of
        Some x \<Rightarrow> (Raise x, [Unset_key path key], w\<lparr>tick := Suc (tick w)\<rparr>)
      | None \<Rightarrow>
          (Return (), [Unset_key path key],
           w\<lparr>tick := Suc (tick w), env_file := (env_file w)(key := None)\<rparr>))"

text \<open>The handler \<^verbatim>\<open>except Exception as e\<close>.\<close>

definition handler :: "exn \<Rightarrow> unit prog" where
  "handler e =
     seq_prog (print (Error_occurred e))
    (seq_prog (traceback_print_exc e)
    (seq_prog (dotenv_unset_key ''../.trader_runner/.env'' ''USE_STAKING'')
    (seq_prog (print Please_confirm_and_retry)
    (sys_exit 1))))"

text \<open>
  \<^verbatim>\<open>try: ... except Exception as e: ...\<close>: an exception of the body runs the handler
  from the world the body left; a return or a \<^verbatim>\<open>sys.exit\<close> passes through. An
  exception of the handler itself is not caught again.
\<close>

definition try_except :: "'a prog \<Rightarrow> (exn \<Rightarrow> 'a prog) \<Rightarrow> 'a prog" where
  "try_except body h w =
     (case body w of
        (Raise e, es, w') \<Rightarrow> (case h e w' of (r, es', w'') \<Rightarrow> (r, es @ es', w''))
      | (Return a, es, w') \<Rightarrow> (Return a, es, w')
      | (Exit code, es, w') \<Rightarrow> (Exit code, es, w'))"

definition main :: "library \<Rightarrow> cli \<Rightarrow> unit prog" where
  "main lib c = try_except (main_try lib c) handler"

section \<open>Vocabulary of the properties\<close>

text \<open>A result with further events in front of its own.\<close>

definition emit ::
  "event list \<Rightarrow> 'a outcome \<times> event list \<times> world \<Rightarrow> 'a outcome \<times> event list \<times> world" where
  "emit es r = (fst r, es @ fst (snd r), snd (snd r))"

text \<open>
  A chain snapshot: for the whole run the contract at address \<open>a\<close> answers as \<open>c\<close>,
  the clock reads \<open>now\<close>, and no external call fails.
\<close>

definition snapshot :: "world \<Rightarrow> address \<Rightarrow> contract \<Rightarrow> real \<Rightarrow> bool" where
  "snapshot w a c now \<longleftrightarrow>
     (\<forall>k. chain_at w k a = c \<and> time_at w k = now \<and> fault w k = None)"

text \<open>The duration lock, as \<^verbatim>\<open>_check_unstaking_availability\<close> tests it.\<close>

definition duration_locked :: "real \<Rightarrow> contract \<Rightarrow> int \<Rightarrow> bool" where
  "duration_locked now c sid \<longleftrightarrow>
     now - real_of_int (ts_start c sid) < real_of_int (min_staking_duration c)
     \<and> available_rewards c > 0"

text \<open>The transactions submitted, in order.\<close>

fun sent :: "event list \<Rightarrow> tx list" where
  "sent [] = []"
| "sent (Send t # es) = t # sent es"
| "sent (e # es) = sent es"

text \<open>The events that build or submit a transaction.\<close>

fun is_tx_event :: "event \<Rightarrow> bool" where
  "is_tx_event (Send t) = True"
| "is_tx_event (Build_stake sid reg a) = True"
| "is_tx_event (Build_unstake sid a) = True"
| "is_tx_event e = False"

text \<open>Concrete worlds for the examples: a chain that holds still, and a contract.\<close>

definition still_world :: "contract \<Rightarrow> real \<Rightarrow> string list \<Rightarrow> world" where
  "still_world c now lines =
     \<lparr>chain_at = (\<lambda>_ _. c), time_at = (\<lambda>_. now), fault = (\<lambda>_. None), tick = 0,
      stdin = lines, env_file = (\<lambda>_. None)(''USE_STAKING'' := Some ''true'')\<rparr>"

definition example_contract :: contract where
  "example_contract =
     \<lparr>service_ids = [], staked = (\<lambda>_. False), evicted = (\<lambda>_. False),
      ts_start = (\<lambda>_. 0), min_staking_duration = 259200, available_rewards = 500,
      available_staking_slots = 2, next_checkpoint_ts = 90000, liveness_period = 86400,
      stake_txs = (\<lambda>_ _. [Tx 1, Tx 2]), unstake_txs = (\<lambda>_. [Tx 3])\<rparr>"

definition example_args :: "bool \<Rightarrow> args" where
  "example_args u =
     \<lparr>service_id = 7, service_registry_address = ''0xRegistry'',
      staking_contract_address = ''0xStaking'', owner_private_key_path = ''key.txt'',
      rpc = ''http://rpc'', unstake = u, password = None\<rparr>"

definition example_cli :: "string \<Rightarrow> cli" where
  "example_cli u =
     \<lparr>cli_service_id = ''7'', cli_service_registry_address = ''0xRegistry'',
      cli_staking_contract_address = ''0xStaking'', cli_owner_private_key_path = ''key.txt'',
      cli_rpc = ''http://rpc'', cli_unstake = u, cli_password = None\<rparr>"

text \<open>
  A library for the examples: \<^verbatim>\<open>int\<close> on the word \<^verbatim>\<open>7\<close>, the test for negative
  numbers on ASCII digits, no help text and no binding after a separator (the
  examples hold neither \<^verbatim>\<open>-h\<close> nor \<^verbatim>\<open>--\<close>).
\<close>

definition ascii_digits :: "string \<Rightarrow> bool" where
  "ascii_digits s \<longleftrightarrow> list_all (\<lambda>c. c \<in> set ''0123456789'') s"

definition ascii_negative_number :: "string \<Rightarrow> bool" where
  "ascii_negative_number t \<longleftrightarrow>
     (case t of
        [] \<Rightarrow> False
      | c # s \<Rightarrow>
          c = CHR ''-'' \<and>
          (let int_part = takeWhile (\<lambda>d. d \<noteq> CHR ''.'') s;
               rest = dropWhile (\<lambda>d. d \<noteq> CHR ''.'') s
           in ascii_digits int_part \<and>
              (if rest = [] then int_part \<noteq> []
               else tl rest \<noteq> [] \<and> ascii_digits (tl rest))))"

definition example_library :: library where
  "example_library =
     \<lparr>py_int = (\<lambda>s. if s = ''7'' then Some 7 else None),
      negative_number = ascii_negative_number,
      prints_help = (\<lambda>_. False),
      after_separator = (\<lambda>_. Exit 2)\<rparr>"

text \<open>
  A world where the service is staked on Everest, the operator has left, and the
  third call that leaves the script, the rewriting of the environment file, fails.
\<close>

definition unwritable_env_world :: world where
  "unwritable_env_world =
     \<lparr>chain_at = (\<lambda>_ _. example_contract\<lparr>service_ids := [7]\<rparr>), time_at = (\<lambda>_. 1000),
      fault = (\<lambda>k. if k = 2 then Some (External_error ''PermissionError'') else None),
      tick = 0, stdin = [],
      env_file = (\<lambda>_. None)(''USE_STAKING'' := Some ''true'')\<rparr>"

text \<open>
  A world whose chain moves during the run: the tenth external call (the read of the
  rewards inside the duration check of the eviction path) finds no rewards, every
  other call finds 500.
\<close>

definition drifting_world :: world where
  "drifting_world =
     \<lparr>chain_at = (\<lambda>k _. if k = 9
                          then example_contract\<lparr>staked := \<lambda>_. True, evicted := \<lambda>_. True,
                                                 available_rewards := 0\<rparr>
                          else example_contract\<lparr>staked := \<lambda>_. True, evicted := \<lambda>_. True\<rparr>),
      time_at = (\<lambda>_. 1000), fault = (\<lambda>_. None), tick = 0, stdin = [],
      env_file = (\<lambda>_. None)(''USE_STAKING'' := Some ''true'')\<rparr>"

text \<open>
  A field is read, a transaction is submitted, and the field is read again: the
  field \<open>q\<close> of the contract at \<open>a\<close> occurs after the first submission that follows
  its first read.
\<close>

fun is_Send :: "event \<Rightarrow> bool" where
  "is_Send (Send t) = True"
| "is_Send e = False"

definition read_acted_reread :: "query \<Rightarrow> address \<Rightarrow> event list \<Rightarrow> bool" where
  "read_acted_reread q a es \<longleftrightarrow>
     Read q a \<in> set (dropWhile (\<lambda>e. \<not> is_Send e) (dropWhile (\<lambda>e. e \<noteq> Read q a) es))"

text \<open>The old programs the sweep has announced that it checks, in order.\<close>

fun checked :: "event list \<Rightarrow> string list" where
  "checked [] = []"
| "checked (Print (Checking_if_staked p) # es) = p # checked es"
| "checked (e # es) = checked es"

definition not_checking :: "event \<Rightarrow> bool" where
  "not_checking e \<longleftrightarrow> checked [e] = []"

text \<open>
  Properties of a call in every world: all its events satisfy a predicate; it never
  returns (it ends in \<^verbatim>\<open>sys.exit\<close> or in an exception); it reads the field \<open>q\<close> of the
  contract at \<open>a\<close> at most \<open>n\<close> times.
\<close>

definition emits_only :: "(event \<Rightarrow> bool) \<Rightarrow> 'a prog \<Rightarrow> bool" where
  "emits_only ok m \<longleftrightarrow> (\<forall>w. list_all ok (events_of m w))"

definition never_returns :: "'a prog \<Rightarrow> bool" where
  "never_returns m \<longleftrightarrow> (\<forall>w x. outcome_of m w \<noteq> Return x)"

definition reads_le :: "query \<Rightarrow> address \<Rightarrow> nat \<Rightarrow> 'a prog \<Rightarrow> bool" where
  "reads_le q a n m \<longleftrightarrow> (\<forall>w. count_list (events_of m w) (Read q a) \<le> n)"

section \<open>Running the script on a snapshot\<close>

lemma emit_emit [simp]: "emit es (emit es' r) = emit (es @ es') r"
  by (simp add: emit_def)

lemma emit_tuple [simp]: "emit es (r, es', w) = (r, es @ es', w)"
  by (simp add: emit_def)

lemma sent_append [simp]: "sent (xs @ ys) = sent xs @ sent ys"
  by (induction xs rule: sent.induct) simp_all

lemma sent_map_Send [simp]: "sent (map Send ts) = ts"
  by (induction ts) simp_all

lemma filter_is_tx_event_map_Send [simp]: "filter is_tx_event (map Send ts) = map Send ts"
  by (induction ts) simp_all

lemma snapshot_tick [simp]: "snapshot (w\<lparr>tick := n\<rparr>) a c now = snapshot w a c now"
  by (simp add: snapshot_def)

lemma snapshot_stdin [simp]: "snapshot (w\<lparr>stdin := ls\<rparr>) a c now = snapshot w a c now"
  by (simp add: snapshot_def)

lemma snapshot_still_world [simp]: "snapshot (still_world c now lines) a c now"
  by (simp add: snapshot_def still_world_def)

lemma stdin_still_world [simp]: "stdin (still_world c now lines) = lines"
  by (simp add: still_world_def)

lemma tick_still_world [simp]: "tick (still_world c now lines) = 0"
  by (simp add: still_world_def)

lemma bind_return [simp]: "bind_prog (return a) f w = f a w"
  by (simp add: bind_prog_def return_def split: prod.splits)

lemma bind_sys_exit [simp]: "bind_prog (sys_exit n) f w = (Exit n, [], w)"
  by (simp add: bind_prog_def sys_exit_def)

lemma bind_raise [simp]: "bind_prog (raise e) f w = (Raise e, [], w)"
  by (simp add: bind_prog_def raise_def)

lemma bind_print [simp]: "bind_prog (print m) f w = emit [Print m] (f () w)"
  by (simp add: bind_prog_def print_def emit_def split: prod.splits)

lemma bind_assoc [simp]:
  "bind_prog (bind_prog m f) g w = bind_prog m (\<lambda>x. bind_prog (f x) g) w"
proof (cases "m w")
  case (fields r es w')
  show ?thesis
  proof (cases r)
    case (Return x)
    obtain r2 es2 w2 where f: "f x w' = (r2, es2, w2)" by (cases "f x w'")
    show ?thesis
    proof (cases r2)
      case (Return y)
      obtain r3 es3 w3 where g: "g y w2 = (r3, es3, w3)" by (cases "g y w2")
      show ?thesis using fields \<open>r = Return x\<close> f Return g by (simp add: bind_prog_def)
    qed (use fields \<open>r = Return x\<close> f in \<open>simp_all add: bind_prog_def\<close>)
  qed (use fields in \<open>simp_all add: bind_prog_def\<close>)
qed

lemma bind_chain_read_snapshot [simp]:
  "snapshot w a c now \<Longrightarrow>
   bind_prog (chain_read q a field) f w =
   emit [Read q a] (f (field c) (w\<lparr>tick := Suc (tick w)\<rparr>))"
  by (simp add: bind_prog_def chain_read_def external_def emit_def snapshot_def
      split: prod.splits)

lemma bind_time_snapshot [simp]:
  "snapshot w a c now \<Longrightarrow>
   bind_prog time_time f w = emit [Read_clock] (f now (w\<lparr>tick := Suc (tick w)\<rparr>))"
  by (simp add: bind_prog_def time_time_def emit_def snapshot_def split: prod.splits)

lemma bind_get_stake_txs_snapshot [simp]:
  "snapshot w a c now \<Longrightarrow>
   bind_prog (get_stake_txs sid reg a) f w =
   emit [Build_stake sid reg a] (f (stake_txs c sid reg) (w\<lparr>tick := Suc (tick w)\<rparr>))"
  by (simp add: bind_prog_def get_stake_txs_def external_def emit_def snapshot_def
      split: prod.splits)

lemma bind_get_unstake_txs_snapshot [simp]:
  "snapshot w a c now \<Longrightarrow>
   bind_prog (get_unstake_txs sid a) f w =
   emit [Build_unstake sid a] (f (unstake_txs c sid) (w\<lparr>tick := Suc (tick w)\<rparr>))"
  by (simp add: bind_prog_def get_unstake_txs_def external_def emit_def snapshot_def
      split: prod.splits)

lemma send_all_snapshot:
  "snapshot w a c now \<Longrightarrow>
   send_all ts w = (Return (), map Send ts, w\<lparr>tick := tick w + length ts\<rparr>)"
proof (induction ts arbitrary: w)
  case Nil
  then show ?case by (simp add: return_def)
next
  case (Cons t ts)
  have "snapshot (w\<lparr>tick := Suc (tick w)\<rparr>) a c now" using Cons.prems by simp
  from Cons.IH[OF this] Cons.prems show ?case
    by (simp add: seq_prog_def bind_prog_def send_tx_and_wait_for_receipt_def external_def
        snapshot_def)
qed

lemma bind_send_all_snapshot [simp]:
  "snapshot w a c now \<Longrightarrow>
   bind_prog (send_all ts) f w =
   emit (map Send ts) (f () (w\<lparr>tick := tick w + length ts\<rparr>))"
  by (simp add: bind_prog_def send_all_snapshot emit_def split: prod.splits)

lemma bind_input_Cons [simp]:
  "stdin w = l # ls \<Longrightarrow>
   bind_prog (input p) f w = emit [Input p] (f l (w\<lparr>stdin := ls\<rparr>))"
  by (simp add: bind_prog_def input_def emit_def split: prod.splits)

lemma bind_input_Nil [simp]:
  "stdin w = [] \<Longrightarrow> bind_prog (input p) f w = (Raise EOFError, [Input p], w)"
  by (simp add: bind_prog_def input_def)

lemmas getters = get_available_staking_slots_def get_available_rewards_def
  get_service_ids_def is_service_staked_def is_service_evicted_def
  get_service_info_ts_start_def get_min_staking_duration_def get_next_checkpoint_ts_def
  get_liveness_period_def

lemma bind_check_snapshot [simp]:
  "snapshot w a c now \<Longrightarrow>
   bind_prog (check_unstaking_availability sid a P) f w =
   emit ([Read_clock, Read Service_info a, Read Min_staking_duration a,
          Read Available_rewards a]
         @ (if duration_locked now c sid
            then [Print (Staked_for P), Print (Cannot_unstake_until P)] else []))
     (f (\<not> duration_locked now c sid) (w\<lparr>tick := tick w + 4\<rparr>))"
  by (simp add: check_unstaking_availability_def seq_prog_def getters duration_locked_def
      eval_nat_numeral)

lemma try_stake_service_snapshot:
  "snapshot w a c now \<Longrightarrow>
   try_stake_service sid reg a P w =
     (if available_staking_slots c \<le> 0 then
        (Exit 1,
         [Read Available_staking_slots a, Print (All_slots_taken a sid),
          Print Script_will_finish],
         w\<lparr>tick := tick w + 1\<rparr>)
      else if available_rewards c = 0 then
        (Exit 0,
         [Read Available_staking_slots a, Print (Not_staked_checking_rewards sid P),
          Read Available_rewards a, Print (No_rewards_cannot_be_staked sid)],
         w\<lparr>tick := tick w + 2\<rparr>)
      else
        (Exit 0,
         [Read Available_staking_slots a, Print (Not_staked_checking_rewards sid P),
          Read Available_rewards a,
          Print (Rewards_available_staking (available_rewards c) sid),
          Build_stake sid reg a]
         @ map Send (stake_txs c sid reg) @ [Print (Staked_successfully sid P)],
         w\<lparr>tick := tick w + 3 + length (stake_txs c sid reg)\<rparr>))"
  by (simp add: try_stake_service_def seq_prog_def getters sys_exit_def eval_nat_numeral)

lemma bind_try_stake_service_snapshot [simp]:
  "snapshot w a c now \<Longrightarrow>
   bind_prog (try_stake_service sid reg a P) f w = try_stake_service sid reg a P w"
  by (simp add: bind_prog_def try_stake_service_snapshot)

text \<open>The engine when no unstake was requested, path by path.\<close>

lemma engine_not_requested:
  assumes "snapshot w (staking_contract_address a) c now" "\<not> unstake a"
  shows "main_engine P a w =
    emit [Read Next_checkpoint_ts (staking_contract_address a),
          Read Liveness_period (staking_contract_address a), Read_clock,
          Read Available_rewards (staking_contract_address a),
          Read Is_staked (staking_contract_address a)]
     (if \<not> staked c (service_id a) then
        try_stake_service (service_id a) (service_registry_address a)
          (staking_contract_address a) P (w\<lparr>tick := tick w + 5\<rparr>)
      else if evicted c (service_id a) then
        emit ([Read Is_evicted (staking_contract_address a),
               Print (Evicted_unstaking (service_id a) P), Read_clock,
               Read Service_info (staking_contract_address a),
               Read Min_staking_duration (staking_contract_address a),
               Read Available_rewards (staking_contract_address a)])
          (if duration_locked now c (service_id a) then
             (Exit 1, [Print (Staked_for P), Print (Cannot_unstake_until P),
                       Print Terminating_script], w\<lparr>tick := tick w + 10\<rparr>)
           else
             emit (Build_unstake (service_id a) (staking_contract_address a)
                   # map Send (unstake_txs c (service_id a))
                   @ [Print (Successfully_unstaked (service_id a) P)])
               (try_stake_service (service_id a) (service_registry_address a)
                  (staking_contract_address a) P
                  (w\<lparr>tick := tick w + 11 + length (unstake_txs c (service_id a))\<rparr>)))
      else
        (if available_rewards c = 0 then
           (Exit 0,
            [Read Is_evicted (staking_contract_address a),
             Print (Already_staked_checking_rewards (service_id a) P),
             Read Available_rewards (staking_contract_address a),
             Print (No_rewards_unstaking (service_id a) P),
             Build_unstake (service_id a) (staking_contract_address a)]
            @ map Send (unstake_txs c (service_id a))
            @ [Print (Successfully_unstaked (service_id a) P)],
            w\<lparr>tick := tick w + 8 + length (unstake_txs c (service_id a))\<rparr>)
         else
           (Exit 0,
            [Read Is_evicted (staking_contract_address a),
             Print (Already_staked_checking_rewards (service_id a) P),
             Read Available_rewards (staking_contract_address a),
             Print (Rewards_available_remain_staked (service_id a))],
            w\<lparr>tick := tick w + 7\<rparr>)))"
  using assms
  by (simp add: main_engine_def stake_or_remain_def seq_prog_def getters sys_exit_def Let_def
      eval_nat_numeral)

lemma bind_utcfromtimestamp [simp]:
  "datetime_range t \<Longrightarrow> bind_prog (utcfromtimestamp t) f w = f t w"
  by (simp add: utcfromtimestamp_def)

lemma bind_ethereum_crypto_snapshot [simp]:
  "snapshot w a c now \<Longrightarrow>
   bind_prog (ethereum_crypto path pw) f w =
   emit [Load_key path] (f () (w\<lparr>tick := Suc (tick w)\<rparr>))"
  by (simp add: bind_prog_def ethereum_crypto_def external_def emit_def snapshot_def
      split: prod.splits)

lemmas engine_defs = main_engine_def unstake_requested_def seq_prog_def getters sys_exit_def
  Let_def eval_nat_numeral

lemmas sweep_defs = unstake_old_program_def confirm_and_unstake_old_def seq_prog_def getters
  sys_exit_def Let_def eval_nat_numeral print_def



text \<open>
  The command line of the examples is accepted whenever its sixth word does not begin
  with \<^verbatim>\<open>-\<close>.
\<close>

lemma positional_plain:
  "t = [] \<or> hd t \<noteq> CHR ''-'' \<Longrightarrow> is_positional negative t"
  by (auto simp: is_positional_def)

lemma parse_example_cli:
  assumes "u = [] \<or> hd u \<noteq> CHR ''-''"
  shows "parse_args example_library (example_cli u) w =
           (Return (example_args (u \<noteq> [])), [], w)"
  using assms
  by (simp add: parse_args_def positional_words_def example_cli_def example_library_def
      example_args_def py_bool_def return_def positional_plain)

section \<open>Running the script in any world\<close>

lemma outcome_of_bind:
  "outcome_of (bind_prog m f) w =
     (case outcome_of m w of
        Return x \<Rightarrow> outcome_of (f x) (world_after m w)
      | Exit n \<Rightarrow> Exit n
      | Raise e \<Rightarrow> Raise e)"
proof (cases "m w" rule: prod_cases3)
  case (fields r es w')
  then show ?thesis
    by (cases r; cases "f (case r of Return x \<Rightarrow> x) w'" rule: prod_cases3)
       (simp_all add: outcome_of_def world_after_def bind_prog_def)
qed

lemma events_of_bind:
  "events_of (bind_prog m f) w =
     events_of m w @
     (case outcome_of m w of
        Return x \<Rightarrow> events_of (f x) (world_after m w)
      | Exit n \<Rightarrow> []
      | Raise e \<Rightarrow> [])"
proof (cases "m w" rule: prod_cases3)
  case (fields r es w')
  then show ?thesis
    by (cases r; cases "f (case r of Return x \<Rightarrow> x) w'" rule: prod_cases3)
       (simp_all add: outcome_of_def events_of_def world_after_def bind_prog_def)
qed

lemma world_after_bind:
  "world_after (bind_prog m f) w =
     (case outcome_of m w of
        Return x \<Rightarrow> world_after (f x) (world_after m w)
      | Exit n \<Rightarrow> world_after m w
      | Raise e \<Rightarrow> world_after m w)"
proof (cases "m w" rule: prod_cases3)
  case (fields r es w')
  then show ?thesis
    by (cases r; cases "f (case r of Return x \<Rightarrow> x) w'" rule: prod_cases3)
       (simp_all add: outcome_of_def world_after_def bind_prog_def)
qed

lemma proj_print:
  "outcome_of (print x) w = Return ()" "events_of (print x) w = [Print x]"
  "world_after (print x) w = w"
  by (simp_all add: outcome_of_def events_of_def world_after_def print_def)

lemma proj_external:
  "outcome_of (external e ans) w =
     (case fault w (tick w) of Some x \<Rightarrow> Raise x | None \<Rightarrow> Return (ans w))"
  "events_of (external e ans) w = [e]"
  "world_after (external e ans) w = w\<lparr>tick := Suc (tick w)\<rparr>"
  by (simp_all add: outcome_of_def events_of_def world_after_def external_def split: option.splits)


lemma events_of_simple:
  "events_of (return x) w = []" "events_of (sys_exit n) w = []" "events_of (raise e) w = []"
  "events_of time_time w = [Read_clock]" "events_of (input p) w = [Input p]"
  by (simp_all add: events_of_def return_def sys_exit_def raise_def time_time_def input_def
      split: list.splits)

lemma outcome_of_simple:
  "outcome_of (return x) w = Return x" "outcome_of (sys_exit n) w = Exit n"
  "outcome_of (raise e) w = Raise e"
  by (simp_all add: outcome_of_def return_def sys_exit_def raise_def)

text \<open>Rules for \<open>emits_only\<close>.\<close>

lemma emits_only_bind:
  "emits_only ok m \<Longrightarrow> (\<And>x. emits_only ok (f x)) \<Longrightarrow> emits_only ok (bind_prog m f)"
  by (auto simp: emits_only_def events_of_bind split: outcome.splits)

lemma emits_only_seq:
  "emits_only ok m \<Longrightarrow> emits_only ok n \<Longrightarrow> emits_only ok (seq_prog m n)"
  by (simp add: seq_prog_def emits_only_bind)

lemma emits_only_if:
  "emits_only ok m \<Longrightarrow> emits_only ok n \<Longrightarrow> emits_only ok (if b then m else n)"
  by simp

lemma emits_only_basic:
  "emits_only ok (return x)" "emits_only ok (sys_exit n)" "emits_only ok (raise e)"
  by (simp_all add: emits_only_def events_of_simple)

lemma emits_only_print: "ok (Print x) \<Longrightarrow> emits_only ok (print x)"
  by (simp add: emits_only_def proj_print)

lemma emits_only_input: "ok (Input p) \<Longrightarrow> emits_only ok (input p)"
  by (simp add: emits_only_def events_of_simple)

lemma emits_only_time: "ok Read_clock \<Longrightarrow> emits_only ok time_time"
  by (simp add: emits_only_def events_of_simple)

lemma emits_only_external: "ok e \<Longrightarrow> emits_only ok (external e ans)"
  by (simp add: emits_only_def proj_external)

lemma emits_only_send_all: "(\<And>t. ok (Send t)) \<Longrightarrow> emits_only ok (send_all ts)"
  by (induction ts)
     (simp_all add: emits_only_basic emits_only_seq emits_only_external
        send_tx_and_wait_for_receipt_def)

lemmas emits_only_intros = emits_only_bind emits_only_seq emits_only_if emits_only_basic
  emits_only_print emits_only_input emits_only_time emits_only_external emits_only_send_all

lemmas ext_defs = chain_read_def get_stake_txs_def get_unstake_txs_def ethereum_crypto_def
  send_tx_and_wait_for_receipt_def

lemma silent_check:
  "emits_only not_checking (check_unstaking_availability sid addr p)"
  unfolding check_unstaking_availability_def getters ext_defs
  by (intro emits_only_intros) (simp_all add: not_checking_def)

lemma silent_confirm:
  "emits_only not_checking (confirm_and_unstake_old sid addr p)"
  unfolding confirm_and_unstake_old_def getters ext_defs Let_def
  by (intro emits_only_intros) (simp_all add: not_checking_def)


lemma checked_append [simp]: "checked (xs @ ys) = checked xs @ checked ys"
  by (induction xs rule: checked.induct) simp_all

lemma checked_silent: "list_all not_checking es \<Longrightarrow> checked es = []"
proof (induction es)
  case Nil
  then show ?case by simp
next
  case (Cons e es)
  have "checked (e # es) = checked [e] @ checked es"
    using checked_append [of "[e]" es] by simp
  with Cons show ?case by (simp add: not_checking_def)
qed

lemma checked_emits_only:
  "emits_only not_checking m \<Longrightarrow> checked (events_of m w) = []"
  by (simp add: emits_only_def checked_silent)

lemma checked_old_program:
  "checked (events_of (unstake_old_program sid addr p) w) = [p]"
proof -
  have "emits_only not_checking
     (if startswith p ''Everest''
      then bind_prog (get_service_ids addr) (\<lambda>ids.
             if sid \<notin> set ids then print (Not_staked sid p)
             else confirm_and_unstake_old sid addr p)
      else bind_prog (is_service_staked sid addr) (\<lambda>is_staked.
             if \<not> is_staked then print (Not_staked sid p)
             else bind_prog (check_unstaking_availability sid addr p) (\<lambda>can_unstake.
                    if \<not> can_unstake
                    then seq_prog (print (Cannot_be_unstaked_yet sid p))
                           (seq_prog (input Press_enter) (sys_exit 0))
                    else confirm_and_unstake_old sid addr p)))"
    unfolding getters ext_defs
    by (intro emits_only_intros silent_check silent_confirm) (simp_all add: not_checking_def)
  then show ?thesis
    by (simp add: unstake_old_program_def seq_prog_def events_of_bind proj_print
        checked_emits_only)
qed

lemma checked_unstake_each:
  "outcome_of (unstake_each sid tbl) w = Return () \<Longrightarrow>
   checked (events_of (unstake_each sid tbl) w) = map fst tbl"
proof (induction tbl arbitrary: w)
  case Nil
  then show ?case by (simp add: events_of_simple)
next
  case (Cons pa tbl)
  obtain p addr where pa: "pa = (p, addr)" by (cases pa)
  from Cons.prems have first: "outcome_of (unstake_old_program sid addr p) w = Return ()"
    and rest: "outcome_of (unstake_each sid tbl)
                 (world_after (unstake_old_program sid addr p) w) = Return ()"
    by (auto simp: pa seq_prog_def outcome_of_bind split: outcome.splits)
  from Cons.IH [OF rest] first show ?case
    by (simp add: pa seq_prog_def events_of_bind checked_old_program)
qed

lemma checked_sweep:
  "outcome_of (unstake_all_old_programs sid) w = Return () \<Longrightarrow>
   checked (events_of (unstake_all_old_programs sid) w) = map fst OLD_STAKING_PROGRAMS"
  by (simp add: unstake_all_old_programs_def seq_prog_def events_of_bind outcome_of_bind
      proj_print checked_unstake_each)

text \<open>Rules for \<open>never_returns\<close>.\<close>

lemma never_returns_bind:
  assumes "\<And>x. never_returns (f x)"
  shows "never_returns (bind_prog m f)"
  unfolding never_returns_def
proof (intro allI)
  fix w y
  show "outcome_of (bind_prog m f) w \<noteq> Return y"
    using assms by (cases "outcome_of m w") (simp_all add: outcome_of_bind never_returns_def)
qed

lemma never_returns_seq: "never_returns n \<Longrightarrow> never_returns (seq_prog m n)"
  by (simp add: seq_prog_def never_returns_bind)

lemma never_returns_if:
  "never_returns m \<Longrightarrow> never_returns n \<Longrightarrow> never_returns (if b then m else n)"
  by simp

lemma never_returns_basic: "never_returns (sys_exit n)" "never_returns (raise e)"
  by (simp_all add: never_returns_def outcome_of_simple)

lemmas never_returns_intros = never_returns_bind never_returns_seq never_returns_if
  never_returns_basic

lemma never_returns_unstake_requested:
  "never_returns (unstake_requested P a n l lt now)"
  unfolding unstake_requested_def
  by (intro never_returns_intros)

lemma seq_never_returns:
  fixes m :: "unit prog"
  assumes "never_returns m"
  shows "seq_prog m n = m"
proof
  fix w
  obtain r es w' where mw: "m w = (r, es, w')" by (cases "m w" rule: prod_cases3)
  from assms have "outcome_of m w \<noteq> Return ()"
    by (simp add: never_returns_def)
  with mw have "r \<noteq> Return ()"
    by (simp add: outcome_of_def)
  with mw show "seq_prog m n w = m w"
    by (cases r) (simp_all add: seq_prog_def bind_prog_def)
qed


text \<open>Rules for \<open>reads_le\<close>; the bound of a call is computed along its text.\<close>

lemma reads_le_bind:
  assumes "reads_le q a i m" "\<And>x. reads_le q a j (f x)"
  shows "reads_le q a (i + j) (bind_prog m f)"
  unfolding reads_le_def
proof
  fix w
  have 1: "count_list (events_of m w) (Read q a) \<le> i"
    using assms(1) by (simp add: reads_le_def)
  have 2: "count_list (case outcome_of m w of
        Return x \<Rightarrow> events_of (f x) (world_after m w) | Exit n \<Rightarrow> [] | Raise e \<Rightarrow> [])
      (Read q a) \<le> j"
    using assms(2) by (cases "outcome_of m w") (simp_all add: reads_le_def)
  from 1 2 show "count_list (events_of (bind_prog m f) w) (Read q a) \<le> i + j"
    by (simp add: events_of_bind)
qed

lemma reads_le_seq:
  "reads_le q a i m \<Longrightarrow> reads_le q a j n \<Longrightarrow> reads_le q a (i + j) (seq_prog m n)"
  by (simp add: seq_prog_def reads_le_bind)

lemma reads_le_if:
  "reads_le q a i m \<Longrightarrow> reads_le q a j n \<Longrightarrow>
   reads_le q a (max i j) (if b then m else n)"
  by (auto simp: reads_le_def intro: le_trans)

lemma reads_le_basic:
  "reads_le q a 0 (return x)" "reads_le q a 0 (sys_exit n)" "reads_le q a 0 (raise e)"
  "reads_le q a 0 (print y)" "reads_le q a 0 (input p)" "reads_le q a 0 time_time"
  by (simp_all add: reads_le_def events_of_simple proj_print)

lemma reads_le_external:
  "reads_le q a (if e = Read q a then 1 else 0) (external e ans)"
  by (simp add: reads_le_def proj_external)

lemma reads_le_send_all: "reads_le q a 0 (send_all ts)"
proof (induction ts)
  case Nil
  then show ?case by (simp add: reads_le_basic)
next
  case (Cons t ts)
  have "reads_le q a (0 + 0) (send_all (t # ts))"
    using reads_le_seq [OF reads_le_external [of q a "Send t"] Cons.IH]
    by (simp add: send_tx_and_wait_for_receipt_def)
  then show ?case by simp
qed

lemma reads_le_weaken: "reads_le q a i m \<Longrightarrow> i \<le> n \<Longrightarrow> reads_le q a n m"
  by (auto simp: reads_le_def intro: le_trans)

lemmas reads_le_intros = reads_le_bind reads_le_seq reads_le_if reads_le_basic
  reads_le_external reads_le_send_all

lemma seq_return: "seq_prog (return x) n = n"
  by (rule ext) (simp add: seq_prog_def)

lemma main_engine_paths:
  "main_engine P a =
     bind_prog (get_next_checkpoint_ts (staking_contract_address a)) (\<lambda>next_ts.
     bind_prog (get_liveness_period (staking_contract_address a)) (\<lambda>liveness.
     bind_prog time_time (\<lambda>now.
     bind_prog (get_available_rewards (staking_contract_address a)) (\<lambda>available_rewards.
       if unstake a
       then unstake_requested P a next_ts liveness (next_ts - liveness) now
       else stake_or_remain P a))))"
  by (cases "unstake a")
     (simp_all add: main_engine_def Let_def seq_return
        seq_never_returns [OF never_returns_unstake_requested])

lemma reads_engine:
  "reads_le q addr (if q = Available_rewards then 3 else 1) (main_engine P a)"
  unfolding main_engine_paths unstake_requested_def stake_or_remain_def try_stake_service_def
    check_unstaking_availability_def getters ext_defs utcfromtimestamp_def Let_def
  apply (rule reads_le_weaken)
   apply (rule reads_le_intros)+
  apply (cases q)
  apply simp_all
  done

lemma proj_parse_args:
  "events_of (parse_args lib cl) w = []" "world_after (parse_args lib cl) w = w"
  by (simp_all add: parse_args_def events_of_def world_after_def return_def sys_exit_def
      split: option.splits)

lemma sweep_everest_snapshot:
  assumes "snapshot w ''0x5add592ce0a1B5DceCebB5Dcac086Cd9F9e3eA5C'' cE now"
    "snapshot w ''0x2Ef503950Be67a98746F484DA0bBAdA339DF3326'' cA now"
    "snapshot w ''0x97371B1C0cDA1D04dFc43DFb50a04645b7Bc9BEe'' cC now"
    "sid \<in> set (service_ids cE)" "\<not> staked cA sid" "\<not> staked cC sid"
    "stdin w = line # rest" "lower line \<in> set [''yes'', ''y'']"
  shows "unstake_all_old_programs sid w =
    (Return (),
     [Print Unstaking_from_old_programs, Print (Checking_if_staked ''Everest''),
      Read Service_ids ''0x5add592ce0a1B5DceCebB5Dcac086Cd9F9e3eA5C'',
      Print (Staked_must_unstake_first sid ''Everest''),
      Input (Continue_unstaking sid ''Everest''), Print Blank,
      Print (Unstaking sid ''Everest''),
      Build_unstake sid ''0x5add592ce0a1B5DceCebB5Dcac086Cd9F9e3eA5C'']
     @ map Send (unstake_txs cE sid)
     @ [Print (Successfully_unstaked sid ''Everest''),
        Print (Checking_if_staked ''Alpine''),
        Read Is_staked ''0x2Ef503950Be67a98746F484DA0bBAdA339DF3326'',
        Print (Not_staked sid ''Alpine''),
        Print (Checking_if_staked ''CoastalTest''),
        Read Is_staked ''0x97371B1C0cDA1D04dFc43DFb50a04645b7Bc9BEe'',
        Print (Not_staked sid ''CoastalTest'')],
     w\<lparr>stdin := rest, tick := tick w + 4 + length (unstake_txs cE sid)\<rparr>)"
  using assms
  by (auto simp: unstake_all_old_programs_def OLD_STAKING_PROGRAMS_def sweep_defs
      startswith_def return_def)

section \<open>The stake attempt\<close>

text \<open>
  Claim C5. On a snapshot, \<^verbatim>\<open>_try_stake_service\<close> decides in this order: with no
  free slot (\<open>available_staking_slots \<le> 0\<close>) it ends with status 1 and builds and
  submits nothing; otherwise with no rewards (\<open>available_rewards = 0\<close>) it ends with
  status 0 and builds and submits nothing; otherwise it builds one stake batch from the
  service id, the registry address and the staking contract address, submits its
  transactions in order, each with its receipt awaited, and ends with status 0. The
  rewards are read only after the slots were found free.
\<close>

theorem try_stake_service_cases:
  assumes "snapshot w a c now"
  shows "outcome_of (try_stake_service sid reg a P) w =
           (if available_staking_slots c \<le> 0 then Exit 1 else Exit 0)
       \<and> events_of (try_stake_service sid reg a P) w =
           (if available_staking_slots c \<le> 0 then
              [Read Available_staking_slots a, Print (All_slots_taken a sid),
               Print Script_will_finish]
            else if available_rewards c = 0 then
              [Read Available_staking_slots a, Print (Not_staked_checking_rewards sid P),
               Read Available_rewards a, Print (No_rewards_cannot_be_staked sid)]
            else
              [Read Available_staking_slots a, Print (Not_staked_checking_rewards sid P),
               Read Available_rewards a,
               Print (Rewards_available_staking (available_rewards c) sid),
               Build_stake sid reg a]
              @ map Send (stake_txs c sid reg) @ [Print (Staked_successfully sid P)])
       \<and> sent (events_of (try_stake_service sid reg a P) w) =
           (if available_staking_slots c \<le> 0 \<or> available_rewards c = 0 then []
            else stake_txs c sid reg)"
  using assms by (simp add: outcome_of_def events_of_def try_stake_service_snapshot)

theorem try_stake_service_cases_witness:
  "outcome_of (try_stake_service 7 ''0xRegistry'' ''0xStaking'' ''Coastal'')
     (still_world example_contract 1000 []) = Exit 0
   \<and> events_of (try_stake_service 7 ''0xRegistry'' ''0xStaking'' ''Coastal'')
     (still_world example_contract 1000 []) =
       [Read Available_staking_slots ''0xStaking'',
        Print (Not_staked_checking_rewards 7 ''Coastal''),
        Read Available_rewards ''0xStaking'',
        Print (Rewards_available_staking 500 7),
        Build_stake 7 ''0xRegistry'' ''0xStaking'', Send (Tx 1), Send (Tx 2),
        Print (Staked_successfully 7 ''Coastal'')]
   \<and> sent (events_of (try_stake_service 7 ''0xRegistry'' ''0xStaking'' ''Coastal'')
     (still_world example_contract 1000 [])) = [Tx 1, Tx 2]"
  using try_stake_service_cases [of "still_world example_contract 1000 []" "''0xStaking''"
      example_contract 1000 7 "''0xRegistry''" "''Coastal''"]
  by (simp add: example_contract_def)

section \<open>Staked and not evicted\<close>

text \<open>
  Claim C4. On a snapshot where the service is staked and not evicted on the target
  contract and no unstake was requested, the engine ends with status 0; it builds one
  unstake batch and submits exactly its transactions when \<open>available_rewards = 0\<close>,
  and builds and submits nothing otherwise.
\<close>

theorem staked_not_evicted:
  assumes "snapshot w (staking_contract_address a) c now" "\<not> unstake a"
    "staked c (service_id a)" "\<not> evicted c (service_id a)"
  shows "outcome_of (main_engine P a) w = Exit 0
       \<and> events_of (main_engine P a) w =
           [Read Next_checkpoint_ts (staking_contract_address a),
            Read Liveness_period (staking_contract_address a), Read_clock,
            Read Available_rewards (staking_contract_address a),
            Read Is_staked (staking_contract_address a),
            Read Is_evicted (staking_contract_address a),
            Print (Already_staked_checking_rewards (service_id a) P),
            Read Available_rewards (staking_contract_address a)]
           @ (if available_rewards c = 0 then
                [Print (No_rewards_unstaking (service_id a) P),
                 Build_unstake (service_id a) (staking_contract_address a)]
                @ map Send (unstake_txs c (service_id a))
                @ [Print (Successfully_unstaked (service_id a) P)]
              else [Print (Rewards_available_remain_staked (service_id a))])
       \<and> sent (events_of (main_engine P a) w) =
           (if available_rewards c = 0 then unstake_txs c (service_id a) else [])
       \<and> filter is_tx_event (events_of (main_engine P a) w) =
           (if available_rewards c = 0
            then Build_unstake (service_id a) (staking_contract_address a)
                 # map Send (unstake_txs c (service_id a))
            else [])"
  using assms by (simp add: outcome_of_def events_of_def engine_not_requested)

theorem staked_not_evicted_witness:
  "outcome_of (main_engine ''Coastal'' (example_args False))
     (still_world (example_contract\<lparr>staked := \<lambda>_. True, available_rewards := 0\<rparr>) 1000 [])
     = Exit 0
   \<and> sent (events_of (main_engine ''Coastal'' (example_args False))
     (still_world (example_contract\<lparr>staked := \<lambda>_. True, available_rewards := 0\<rparr>) 1000 []))
     = [Tx 3]
   \<and> filter is_tx_event (events_of (main_engine ''Coastal'' (example_args False))
     (still_world (example_contract\<lparr>staked := \<lambda>_. True, available_rewards := 0\<rparr>) 1000 []))
     = [Build_unstake 7 ''0xStaking'', Send (Tx 3)]"
  using staked_not_evicted [of
      "still_world (example_contract\<lparr>staked := \<lambda>_. True, available_rewards := 0\<rparr>) 1000 []"
      "example_args False" "example_contract\<lparr>staked := \<lambda>_. True, available_rewards := 0\<rparr>"
      1000 "''Coastal''"]
  by (simp add: example_contract_def example_args_def)

section \<open>Staked and evicted\<close>

text \<open>
  Claim C1, as the code has it. On a snapshot where the service is staked and evicted
  on the target contract and no unstake was requested, the engine first runs the
  duration check. When the lock holds (the minimum staking duration has not elapsed
  and rewards are available) it ends with status 1 and builds and submits nothing.
  Otherwise, whatever the rewards, it builds the unstake batch, submits its
  transactions in order and then runs the stake attempt \<^verbatim>\<open>_try_stake_service\<close>, whose
  result is the result of the run.
\<close>

theorem evicted_unstakes_unless_locked:
  assumes "snapshot w (staking_contract_address a) c now" "\<not> unstake a"
    "staked c (service_id a)" "evicted c (service_id a)"
  shows "main_engine P a w =
    (if duration_locked now c (service_id a) then
       (Exit 1,
        [Read Next_checkpoint_ts (staking_contract_address a),
         Read Liveness_period (staking_contract_address a), Read_clock,
         Read Available_rewards (staking_contract_address a),
         Read Is_staked (staking_contract_address a),
         Read Is_evicted (staking_contract_address a),
         Print (Evicted_unstaking (service_id a) P), Read_clock,
         Read Service_info (staking_contract_address a),
         Read Min_staking_duration (staking_contract_address a),
         Read Available_rewards (staking_contract_address a),
         Print (Staked_for P), Print (Cannot_unstake_until P), Print Terminating_script],
        w\<lparr>tick := tick w + 10\<rparr>)
     else
       emit ([Read Next_checkpoint_ts (staking_contract_address a),
              Read Liveness_period (staking_contract_address a), Read_clock,
              Read Available_rewards (staking_contract_address a),
              Read Is_staked (staking_contract_address a),
              Read Is_evicted (staking_contract_address a),
              Print (Evicted_unstaking (service_id a) P), Read_clock,
              Read Service_info (staking_contract_address a),
              Read Min_staking_duration (staking_contract_address a),
              Read Available_rewards (staking_contract_address a),
              Build_unstake (service_id a) (staking_contract_address a)]
             @ map Send (unstake_txs c (service_id a))
             @ [Print (Successfully_unstaked (service_id a) P)])
         (try_stake_service (service_id a) (service_registry_address a)
            (staking_contract_address a) P
            (w\<lparr>tick := tick w + 11 + length (unstake_txs c (service_id a))\<rparr>)))"
  using assms by (simp add: engine_not_requested)

text \<open>
  An evicted service past its minimum staking duration: unstaked, then staked again.
\<close>

theorem evicted_unstakes_unless_locked_witness:
  "outcome_of (main_engine ''Coastal'' (example_args False))
     (still_world (example_contract\<lparr>staked := \<lambda>_. True, evicted := \<lambda>_. True\<rparr>) 300000 [])
     = Exit 0
   \<and> filter is_tx_event (events_of (main_engine ''Coastal'' (example_args False))
     (still_world (example_contract\<lparr>staked := \<lambda>_. True, evicted := \<lambda>_. True\<rparr>) 300000 []))
     = [Build_unstake 7 ''0xStaking'', Send (Tx 3),
        Build_stake 7 ''0xRegistry'' ''0xStaking'', Send (Tx 1), Send (Tx 2)]"
  using evicted_unstakes_unless_locked [of
      "still_world (example_contract\<lparr>staked := \<lambda>_. True, evicted := \<lambda>_. True\<rparr>) 300000 []"
      "example_args False" "example_contract\<lparr>staked := \<lambda>_. True, evicted := \<lambda>_. True\<rparr>"
      300000 "''Coastal''"]
  by (simp add: example_contract_def example_args_def duration_locked_def outcome_of_def
      events_of_def try_stake_service_snapshot
        [of _ "''0xStaking''" "example_contract\<lparr>staked := \<lambda>_. True, evicted := \<lambda>_. True\<rparr>"
           300000])

text \<open>
  The claim as written (an unstake batch is always submitted, whatever the rewards)
  fails: a service staked and evicted 1000 seconds after its stake began, under a
  minimum staking duration of 259200 seconds and with 500 of rewards available, makes
  the engine end with status 1 without building or submitting any transaction.
\<close>

theorem evicted_locked_counterexample:
  "staked (example_contract\<lparr>staked := \<lambda>_. True, evicted := \<lambda>_. True\<rparr>)
     (service_id (example_args False))
   \<and> evicted (example_contract\<lparr>staked := \<lambda>_. True, evicted := \<lambda>_. True\<rparr>)
     (service_id (example_args False))
   \<and> \<not> unstake (example_args False)
   \<and> outcome_of (main_engine ''Coastal'' (example_args False))
        (still_world (example_contract\<lparr>staked := \<lambda>_. True, evicted := \<lambda>_. True\<rparr>) 1000 [])
      = Exit 1
   \<and> filter is_tx_event (events_of (main_engine ''Coastal'' (example_args False))
        (still_world (example_contract\<lparr>staked := \<lambda>_. True, evicted := \<lambda>_. True\<rparr>) 1000 []))
      = []"
  using engine_not_requested [of
      "still_world (example_contract\<lparr>staked := \<lambda>_. True, evicted := \<lambda>_. True\<rparr>) 1000 []"
      "example_args False" "example_contract\<lparr>staked := \<lambda>_. True, evicted := \<lambda>_. True\<rparr>"
      1000 "''Coastal''"]
  by (simp add: example_contract_def example_args_def duration_locked_def outcome_of_def
      events_of_def)

section \<open>The duration lock\<close>

text \<open>
  Claim C2. On a snapshot where the duration lock holds (\<open>now - ts_start <
  min_staking_duration\<close> and \<open>available_rewards > 0\<close>), a run of the engine that asks
  for an unstake, because an unstake was requested or because the service is staked
  and evicted, builds and submits no transaction. It ends with status 1 when the
  service is staked (with status 0 when an unstake was requested for a service that is
  not staked; with \<^verbatim>\<open>EOFError\<close> when the operator's input has ended before the eviction
  warning of the explicit path was acknowledged).
\<close>

theorem duration_lock_blocks_unstake:
  assumes "snapshot w (staking_contract_address a) c now"
    "duration_locked now c (service_id a)"
    "unstake a \<or> (staked c (service_id a) \<and> evicted c (service_id a))"
  shows "filter is_tx_event (events_of (main_engine P a) w) = []
       \<and> outcome_of (main_engine P a) w =
           (if \<not> staked c (service_id a) then Exit 0
            else if unstake a \<and> evicted c (service_id a) \<and> stdin w = []
            then Raise EOFError
            else Exit 1)"
proof (cases "unstake a")
  case True
  with assms(1,2) show ?thesis
    by (cases "stdin w") (simp_all add: outcome_of_def events_of_def engine_defs)
next
  case False
  with assms show ?thesis
    by (simp add: outcome_of_def events_of_def engine_not_requested)
qed

text \<open>The explicit path, on a staked and evicted service whose operator pressed Enter.\<close>

theorem duration_lock_blocks_unstake_witness:
  "filter is_tx_event (events_of (main_engine ''Coastal'' (example_args True))
     (still_world (example_contract\<lparr>staked := \<lambda>_. True, evicted := \<lambda>_. True\<rparr>) 1000 [[]]))
     = []
   \<and> outcome_of (main_engine ''Coastal'' (example_args True))
     (still_world (example_contract\<lparr>staked := \<lambda>_. True, evicted := \<lambda>_. True\<rparr>) 1000 [[]])
     = Exit 1"
  using duration_lock_blocks_unstake [of
      "still_world (example_contract\<lparr>staked := \<lambda>_. True, evicted := \<lambda>_. True\<rparr>) 1000 [[]]"
      "example_args True" "example_contract\<lparr>staked := \<lambda>_. True, evicted := \<lambda>_. True\<rparr>"
      1000 "''Coastal''"]
  by (simp add: example_contract_def example_args_def duration_locked_def)

section \<open>The checkpoint warning\<close>

text \<open>
  Claim C6. On a snapshot where an unstake was requested, the service is staked, the
  duration check has passed and the clock read at the start of the engine is before
  \<open>next_checkpoint_ts\<close> (both timestamps of the warning being dates
  \<^verbatim>\<open>datetime\<close> can format), the engine prints the checkpoint warning and asks whether to
  continue. For every answer whose lower-cased text is neither \<^verbatim>\<open>yes\<close> nor \<^verbatim>\<open>y\<close> it
  prints that the script terminates and ends with status 1; no transaction is built or
  submitted. When the service is evicted, the operator has first acknowledged the
  eviction warning with a line \<open>ack\<close>.
\<close>

theorem unstake_refused_before_checkpoint:
  assumes "snapshot w (staking_contract_address a) c now"
    "unstake a" "staked c (service_id a)"
    "\<not> duration_locked now c (service_id a)"
    "now < real_of_int (next_checkpoint_ts c)"
    "datetime_range (next_checkpoint_ts c - liveness_period c)"
    "datetime_range (next_checkpoint_ts c)"
    "stdin w = (if evicted c (service_id a) then [ack] else []) @ line # rest"
    "lower line \<notin> set [''yes'', ''y'']"
  shows "outcome_of (main_engine P a) w = Exit 1
       \<and> events_of (main_engine P a) w =
           [Read Next_checkpoint_ts (staking_contract_address a),
            Read Liveness_period (staking_contract_address a), Read_clock,
            Read Available_rewards (staking_contract_address a),
            Read Is_staked (staking_contract_address a),
            Read Is_evicted (staking_contract_address a)]
           @ (if evicted c (service_id a)
              then [Print (Evicted_warning (service_id a) P), Input Press_enter] else [])
           @ [Read_clock, Read Service_info (staking_contract_address a),
              Read Min_staking_duration (staking_contract_address a),
              Read Available_rewards (staking_contract_address a),
              Print (Checkpoint_not_available (liveness_period c)
                       (next_checkpoint_ts c - liveness_period c) (next_checkpoint_ts c)),
              Input (Continue_unstaking (service_id a) P), Print Blank,
              Print Terminating_script]
       \<and> filter is_tx_event (events_of (main_engine P a) w) = []"
  using assms
  by (cases "evicted c (service_id a)") (simp_all add: outcome_of_def events_of_def engine_defs)

theorem unstake_refused_before_checkpoint_witness:
  "outcome_of (main_engine ''Coastal'' (example_args True))
     (still_world (example_contract\<lparr>staked := \<lambda>_. True, min_staking_duration := 100\<rparr>)
        1000 [''no'']) = Exit 1
   \<and> events_of (main_engine ''Coastal'' (example_args True))
     (still_world (example_contract\<lparr>staked := \<lambda>_. True, min_staking_duration := 100\<rparr>)
        1000 [''no'']) =
       [Read Next_checkpoint_ts ''0xStaking'', Read Liveness_period ''0xStaking'', Read_clock,
        Read Available_rewards ''0xStaking'', Read Is_staked ''0xStaking'',
        Read Is_evicted ''0xStaking'', Read_clock, Read Service_info ''0xStaking'',
        Read Min_staking_duration ''0xStaking'', Read Available_rewards ''0xStaking'',
        Print (Checkpoint_not_available 86400 3600 90000),
        Input (Continue_unstaking 7 ''Coastal''), Print Blank, Print Terminating_script]"
  using unstake_refused_before_checkpoint [of
      "still_world (example_contract\<lparr>staked := \<lambda>_. True, min_staking_duration := 100\<rparr>)
         1000 [''no'']"
      "example_args True" "example_contract\<lparr>staked := \<lambda>_. True, min_staking_duration := 100\<rparr>"
      1000 "[]" "''no''" "[]" "''Coastal''"]
  by (simp add: example_contract_def example_args_def duration_locked_def datetime_range_def
      lower_def lower_char_def)

section \<open>The old programs and the duration lock\<close>

text \<open>
  Claim C10. In \<^verbatim>\<open>_unstake_old_program\<close> the duration check guards only the programs
  asked with \<^verbatim>\<open>is_service_staked\<close>. Take a snapshot of an old program on which the
  service is staked (listed by \<^verbatim>\<open>get_service_ids\<close> and reported by
  \<^verbatim>\<open>is_service_staked\<close>) and whose duration lock holds, and an operator who answers
  yes. For a program whose name starts with \<^verbatim>\<open>Everest\<close> the script goes from the
  membership query straight to the prompt and submits the unstake batch: it reads
  neither the clock, nor the service info, nor the minimum staking duration, nor the
  rewards. For any other program it runs the duration check and ends with status 0
  without a transaction.
\<close>

theorem everest_skips_duration_check:
  assumes "snapshot w addr c now"
    "duration_locked now c sid"
    "sid \<in> set (service_ids c)" "staked c sid"
    "stdin w = line # rest" "lower line \<in> set [''yes'', ''y'']"
  shows "unstake_old_program sid addr P w =
    (if startswith P ''Everest'' then
       (Return (),
        [Print (Checking_if_staked P), Read Service_ids addr,
         Print (Staked_must_unstake_first sid P), Input (Continue_unstaking sid P),
         Print Blank, Print (Unstaking sid P), Build_unstake sid addr]
        @ map Send (unstake_txs c sid) @ [Print (Successfully_unstaked sid P)],
        w\<lparr>stdin := rest, tick := tick w + 2 + length (unstake_txs c sid)\<rparr>)
     else
       (Exit 0,
        [Print (Checking_if_staked P), Read Is_staked addr, Read_clock,
         Read Service_info addr, Read Min_staking_duration addr, Read Available_rewards addr,
         Print (Staked_for P), Print (Cannot_unstake_until P),
         Print (Cannot_be_unstaked_yet sid P), Input Press_enter],
        w\<lparr>stdin := rest, tick := tick w + 5\<rparr>))"
  using assms by (auto simp: sweep_defs)

theorem everest_skips_duration_check_witness:
  "outcome_of
     (unstake_old_program 7 ''0x5add592ce0a1B5DceCebB5Dcac086Cd9F9e3eA5C'' ''Everest'')
     (still_world (example_contract\<lparr>service_ids := [7], staked := \<lambda>_. True\<rparr>) 1000 [''YES''])
     = Return ()
   \<and> filter is_tx_event (events_of
     (unstake_old_program 7 ''0x5add592ce0a1B5DceCebB5Dcac086Cd9F9e3eA5C'' ''Everest'')
     (still_world (example_contract\<lparr>service_ids := [7], staked := \<lambda>_. True\<rparr>) 1000 [''YES'']))
     = [Build_unstake 7 ''0x5add592ce0a1B5DceCebB5Dcac086Cd9F9e3eA5C'', Send (Tx 3)]
   \<and> duration_locked 1000 (example_contract\<lparr>service_ids := [7], staked := \<lambda>_. True\<rparr>) 7"
  using everest_skips_duration_check [of
      "still_world (example_contract\<lparr>service_ids := [7], staked := \<lambda>_. True\<rparr>) 1000 [''YES'']"
      "''0x5add592ce0a1B5DceCebB5Dcac086Cd9F9e3eA5C''"
      "example_contract\<lparr>service_ids := [7], staked := \<lambda>_. True\<rparr>"
      1000 7 "''YES''" "[]" "''Everest''"]
  by (simp add: example_contract_def duration_locked_def outcome_of_def events_of_def
      lower_def lower_char_def startswith_def)

section \<open>The top-level handler\<close>

text \<open>
  Claim C8 fails as written. The handler is not certain to reach its end: the
  rewriting of the environment file is a call that may itself raise, inside the
  \<^verbatim>\<open>except\<close> block, where nothing catches it. In the world below the operator has left
  while the service is staked on Everest, so the body raises \<^verbatim>\<open>EOFError\<close>; the handler
  prints the error and the traceback, \<^verbatim>\<open>dotenv.unset_key\<close> fails, and the run ends with
  that second exception: the request to confirm and retry is not printed, the run does
  not end with status 1, and \<^verbatim>\<open>USE_STAKING\<close> is still set.
\<close>

theorem handler_unset_key_counterexample:
  "outcome_of (main example_library (example_cli ''False'')) unwritable_env_world
     = Raise (External_error ''PermissionError'')
   \<and> events_of (main example_library (example_cli ''False'')) unwritable_env_world
     = [Print (Starting ''Coastal''), Load_key ''key.txt'',
        Print Unstaking_from_old_programs, Print (Checking_if_staked ''Everest''),
        Read Service_ids ''0x5add592ce0a1B5DceCebB5Dcac086Cd9F9e3eA5C'',
        Print (Staked_must_unstake_first 7 ''Everest''),
        Input (Continue_unstaking 7 ''Everest''),
        Print (Error_occurred EOFError), Traceback EOFError,
        Unset_key ''../.trader_runner/.env'' ''USE_STAKING'']
   \<and> env_file (world_after (main example_library (example_cli ''False''))
        unwritable_env_world) ''USE_STAKING'' = Some ''true''"
proof -
  have run: "main example_library (example_cli ''False'') unwritable_env_world =
    (Raise (External_error ''PermissionError''),
     [Print (Starting ''Coastal''), Load_key ''key.txt'',
      Print Unstaking_from_old_programs, Print (Checking_if_staked ''Everest''),
      Read Service_ids ''0x5add592ce0a1B5DceCebB5Dcac086Cd9F9e3eA5C'',
      Print (Staked_must_unstake_first 7 ''Everest''),
      Input (Continue_unstaking 7 ''Everest''),
      Print (Error_occurred EOFError), Traceback EOFError,
      Unset_key ''../.trader_runner/.env'' ''USE_STAKING''],
     unwritable_env_world\<lparr>tick := 3\<rparr>)"
    by (simp add: main_def try_except_def main_try_def Let_def
        parse_example_cli handler_def
        unstake_all_old_programs_def OLD_STAKING_PROGRAMS_def unstake_old_program_def
        confirm_and_unstake_old_def getters ext_defs seq_prog_def bind_prog_def
        external_def ethereum_crypto_def print_def input_def raise_def sys_exit_def
        return_def traceback_print_exc_def dotenv_unset_key_def startswith_def
        example_args_def example_contract_def unwritable_env_world_def)
  show ?thesis
    by (simp add: run outcome_of_def events_of_def world_after_def)
       (simp add: unwritable_env_world_def)
qed



section \<open>The sweep comes first\<close>

text \<open>
  Claim C7. In every run the events of the body of \<^verbatim>\<open>main\<close> are, in this order: the
  start message, the loading of the key, all events of the legacy sweep, and only then,
  and only when the sweep has returned, the events of the decision engine, which starts
  from the world the sweep has left. When the arguments are rejected, the key cannot
  be loaded, or the sweep ends the run (by \<^verbatim>\<open>sys.exit\<close> or an exception), the
  engine contributes no event: it reads nothing and submits nothing. A sweep that
  returns has checked every program of the table \<^verbatim>\<open>OLD_STAKING_PROGRAMS\<close>, in the
  order of the table.
\<close>

theorem sweep_precedes_engine:
  "events_of (main_try lib cl) w =
     Print (Starting ''Coastal'') #
     (case outcome_of (parse_args lib cl) w of
        Return a \<Rightarrow>
          Load_key (owner_private_key_path a) #
          (case fault w (tick w) of
             Some x \<Rightarrow> []
           | None \<Rightarrow>
               events_of (unstake_all_old_programs (service_id a)) (w\<lparr>tick := Suc (tick w)\<rparr>) @
               (case outcome_of (unstake_all_old_programs (service_id a))
                       (w\<lparr>tick := Suc (tick w)\<rparr>) of
                  Return u \<Rightarrow>
                    events_of (main_engine ''Coastal'' a)
                      (world_after (unstake_all_old_programs (service_id a))
                         (w\<lparr>tick := Suc (tick w)\<rparr>))
                | Exit n \<Rightarrow> []
                | Raise e \<Rightarrow> []))
      | Exit n \<Rightarrow> []
      | Raise e \<Rightarrow> [])
   \<and> (outcome_of (unstake_all_old_programs sid) w0 = Return () \<longrightarrow>
        checked (events_of (unstake_all_old_programs sid) w0) = map fst OLD_STAKING_PROGRAMS)"
  by (simp add: main_try_def Let_def seq_prog_def events_of_bind outcome_of_bind
      world_after_bind proj_print proj_parse_args ethereum_crypto_def proj_external
      checked_sweep split: outcome.splits option.splits)

text \<open>
  A service staked on Everest and not on the target contract, two free slots, rewards
  of 500, an operator who answers yes: the sweep unstakes from Everest, then the engine
  stakes.
\<close>

theorem sweep_precedes_engine_witness:
  "outcome_of (unstake_all_old_programs 7)
     ((still_world (example_contract\<lparr>service_ids := [7]\<rparr>) 1000 [''yes''])\<lparr>tick := 1\<rparr>)
     = Return ()
   \<and> checked (events_of (unstake_all_old_programs 7)
     ((still_world (example_contract\<lparr>service_ids := [7]\<rparr>) 1000 [''yes''])\<lparr>tick := 1\<rparr>))
     = [''Everest'', ''Alpine'', ''CoastalTest'']
   \<and> filter is_tx_event (events_of (main_try example_library (example_cli []))
     (still_world (example_contract\<lparr>service_ids := [7]\<rparr>) 1000 [''yes'']))
     = [Build_unstake 7 ''0x5add592ce0a1B5DceCebB5Dcac086Cd9F9e3eA5C'', Send (Tx 3),
        Build_stake 7 ''0xRegistry'' ''0xStaking'', Send (Tx 1), Send (Tx 2)]"
proof -
  let ?c = "example_contract\<lparr>service_ids := [7]\<rparr>"
  let ?W = "still_world ?c 1000 [''yes'']"
  have sweep: "unstake_all_old_programs 7 (?W\<lparr>tick := Suc 0\<rparr>) =
    (Return (),
     [Print Unstaking_from_old_programs, Print (Checking_if_staked ''Everest''),
      Read Service_ids ''0x5add592ce0a1B5DceCebB5Dcac086Cd9F9e3eA5C'',
      Print (Staked_must_unstake_first 7 ''Everest''),
      Input (Continue_unstaking 7 ''Everest''), Print Blank,
      Print (Unstaking 7 ''Everest''),
      Build_unstake 7 ''0x5add592ce0a1B5DceCebB5Dcac086Cd9F9e3eA5C'', Send (Tx 3),
      Print (Successfully_unstaked 7 ''Everest''),
      Print (Checking_if_staked ''Alpine''),
      Read Is_staked ''0x2Ef503950Be67a98746F484DA0bBAdA339DF3326'',
      Print (Not_staked 7 ''Alpine''),
      Print (Checking_if_staked ''CoastalTest''),
      Read Is_staked ''0x97371B1C0cDA1D04dFc43DFb50a04645b7Bc9BEe'',
      Print (Not_staked 7 ''CoastalTest'')],
     ?W\<lparr>stdin := [], tick := 6\<rparr>)"
    using sweep_everest_snapshot [of "?W\<lparr>tick := Suc 0\<rparr>" ?c 1000 ?c ?c 7 "''yes''" "[]"]
    by (simp add: example_contract_def lower_def lower_char_def)
  have engine: "main_engine ''Coastal'' (example_args False) (?W\<lparr>stdin := [], tick := 6\<rparr>) =
    (Exit 0,
     [Read Next_checkpoint_ts ''0xStaking'', Read Liveness_period ''0xStaking'', Read_clock,
      Read Available_rewards ''0xStaking'', Read Is_staked ''0xStaking'',
      Read Available_staking_slots ''0xStaking'',
      Print (Not_staked_checking_rewards 7 ''Coastal''), Read Available_rewards ''0xStaking'',
      Print (Rewards_available_staking 500 7),
      Build_stake 7 ''0xRegistry'' ''0xStaking'', Send (Tx 1), Send (Tx 2),
      Print (Staked_successfully 7 ''Coastal'')],
     ?W\<lparr>stdin := [], tick := 16\<rparr>)"
    using engine_not_requested [of "?W\<lparr>stdin := [], tick := 6\<rparr>" "example_args False" ?c
        1000 "''Coastal''"]
      try_stake_service_snapshot [of "?W\<lparr>stdin := [], tick := 11\<rparr>" "''0xStaking''" ?c 1000
        7 "''0xRegistry''" "''Coastal''"]
    by (simp add: example_contract_def example_args_def)
  have parse: "parse_args example_library (example_cli []) ?W =
      (Return (example_args False), [], ?W)"
    using parse_example_cli [of "[]" ?W] by simp
  have fault: "fault ?W (tick ?W) = None"
    by (simp add: still_world_def)
  from sweep_precedes_engine [of example_library "example_cli []" ?W 7 "?W\<lparr>tick := 1\<rparr>"]
    sweep engine parse fault
  show ?thesis
    by (simp add: outcome_of_def events_of_def world_after_def example_args_def
        OLD_STAKING_PROGRAMS_def)
qed

section \<open>The \<^verbatim>\<open>unstake\<close> argument\<close>

text \<open>
  A command line one of whose six words \<^verbatim>\<open>argparse\<close> does not take for a positional
  argument, and that gives no password, ends in the parser: after the start message
  the run exits with status 0 (the help text) or 2 (a usage error), and neither the
  sweep nor the engine runs.
\<close>

lemma option_word_ends_run:
  assumes "\<not> list_all (is_positional (negative_number lib)) (positional_words cl)"
    "cli_password cl = None"
  shows "main lib cl w =
           (Exit (if prints_help lib cl then 0 else 2), [Print (Starting ''Coastal'')], w)"
  using assms
  by (simp add: main_def try_except_def main_try_def Let_def seq_prog_def bind_prog_def
      print_def parse_args_def sys_exit_def)

text \<open>
  Claim C9 fails as written. Not every non-empty string given as the sixth word
  selects the unstake path: \<^verbatim>\<open>argparse\<close> takes a word such as \<^verbatim>\<open>-x\<close> for an option,
  not for the value of \<^verbatim>\<open>unstake\<close>, and ends the run with a usage error before
  \<^verbatim>\<open>bool\<close> is applied; the run exits with status 2 after the start message, and the
  engine reads nothing.
\<close>

theorem unstake_option_word_counterexample:
  "cli_unstake (example_cli ''-x'') \<noteq> []
   \<and> \<not> is_positional (negative_number example_library) (cli_unstake (example_cli ''-x''))
   \<and> main example_library (example_cli ''-x'') (still_world example_contract 1000 []) =
       (Exit 2, [Print (Starting ''Coastal'')], still_world example_contract 1000 [])"
proof -
  have word: "\<not> is_positional (negative_number example_library) ''-x''"
    by (simp add: is_positional_def option_strings_def option_tuples_def startswith_def
        example_library_def ascii_negative_number_def ascii_digits_def)
  then have "\<not> list_all (is_positional (negative_number example_library))
      (positional_words (example_cli ''-x''))"
    by (simp add: positional_words_def example_cli_def)
  from option_word_ends_run [OF this, of "still_world example_contract 1000 []"] word
  show ?thesis
    by (simp add: example_cli_def example_library_def)
qed



section \<open>Reads of the contract state\<close>

text \<open>
  The run of the engine in the drifting world, on a service staked and evicted 1000
  seconds after its stake began.
\<close>

lemma drifting_run:
  "events_of (main_engine ''Coastal'' (example_args False)) drifting_world =
     [Read Next_checkpoint_ts ''0xStaking'', Read Liveness_period ''0xStaking'', Read_clock,
      Read Available_rewards ''0xStaking'', Read Is_staked ''0xStaking'',
      Read Is_evicted ''0xStaking'', Print (Evicted_unstaking 7 ''Coastal''), Read_clock,
      Read Service_info ''0xStaking'', Read Min_staking_duration ''0xStaking'',
      Read Available_rewards ''0xStaking'', Build_unstake 7 ''0xStaking'', Send (Tx 3),
      Print (Successfully_unstaked 7 ''Coastal''),
      Read Available_staking_slots ''0xStaking'',
      Print (Not_staked_checking_rewards 7 ''Coastal''),
      Read Available_rewards ''0xStaking'', Print (Rewards_available_staking 500 7),
      Build_stake 7 ''0xRegistry'' ''0xStaking'', Send (Tx 1), Send (Tx 2),
      Print (Staked_successfully 7 ''Coastal'')]"
  by (simp add: events_of_def drifting_world_def example_args_def example_contract_def
      main_engine_def stake_or_remain_def try_stake_service_def
      check_unstaking_availability_def getters ext_defs seq_prog_def Let_def
      bind_prog_def external_def time_time_def print_def sys_exit_def return_def)

text \<open>
  Claim C3 fails as written. The engine takes no snapshot: it asks the chain at each
  point of use. In the drifting world \<open>available_rewards\<close> is read three times; the
  second read, in the duration check, finds 0, so the unstake batch is submitted
  although the minimum staking duration has not elapsed; the third read, after that
  submission, finds 500, so the service is staked again. The field is read, acted on
  and read again.
\<close>

theorem rewards_reread_counterexample:
  "read_acted_reread Available_rewards ''0xStaking''
     (events_of (main_engine ''Coastal'' (example_args False)) drifting_world)
   \<and> count_list (events_of (main_engine ''Coastal'' (example_args False)) drifting_world)
       (Read Available_rewards ''0xStaking'') = 3
   \<and> filter is_tx_event
       (events_of (main_engine ''Coastal'' (example_args False)) drifting_world)
     = [Build_unstake 7 ''0xStaking'', Send (Tx 3),
        Build_stake 7 ''0xRegistry'' ''0xStaking'', Send (Tx 1), Send (Tx 2)]
   \<and> available_rewards (chain_at drifting_world 9 ''0xStaking'') = 0
   \<and> available_rewards (chain_at drifting_world 13 ''0xStaking'') = 500"
proof -
  have reread: "read_acted_reread Available_rewards ''0xStaking''
      (events_of (main_engine ''Coastal'' (example_args False)) drifting_world)"
    by (simp add: drifting_run read_acted_reread_def)
  have three: "count_list
      (events_of (main_engine ''Coastal'' (example_args False)) drifting_world)
      (Read Available_rewards ''0xStaking'') = 3"
    by (simp add: drifting_run)
  have txs: "filter is_tx_event
      (events_of (main_engine ''Coastal'' (example_args False)) drifting_world)
     = [Build_unstake 7 ''0xStaking'', Send (Tx 3),
        Build_stake 7 ''0xRegistry'' ''0xStaking'', Send (Tx 1), Send (Tx 2)]"
    by (simp add: drifting_run)
  have chain: "available_rewards (chain_at drifting_world 9 ''0xStaking'') = 0"
    "available_rewards (chain_at drifting_world 13 ''0xStaking'') = 500"
    by (simp_all add: drifting_world_def example_contract_def)
  show ?thesis
    by (rule conjI reread three txs chain)+
qed

text \<open>
  Claim C3, as the code has it. In one run of the decision engine, in any world, every
  field of the contract state other than \<open>available_rewards\<close> is read from the chain at
  most once, and \<open>available_rewards\<close> at most three times (before the branch, in the
  duration check or the zero-rewards check, and in the stake attempt).
\<close>

theorem engine_reads_bounded:
  "count_list (events_of (main_engine P a) w) (Read q addr)
     \<le> (if q = Available_rewards then 3 else 1)"
  using reads_engine [of q addr P a] by (simp add: reads_le_def)

end
